theory Spec2Isabelle
  imports Complex_Main "HOL-Library.Sublist"
begin

unbundle bit_operations_syntax

section \<open>Shared data: users, interaction contexts, events\<close>

text \<open>
  The program is a webhook server for a chat bot (TypeScript). Its collaborators (the
  chat platform's REST interface, the database, the error tracker, the metrics registry)
  are seen through the calls the code makes to them: every such call is an \<open>event\<close>
  appended to a trace, in the order in which the code issues it, and every value such a
  call gives back is an input of the model.
\<close>

datatype js_error = TypeError | HandlerError string

record user =
  user_id :: string
  username :: string
  discriminator :: string

text \<open>
  What the code reads of a \<open>Context\<close>: the caller, the channel, the guild (absent in a
  direct message), the member's permission bitmask (\<open>BigInt(ctx.member.permissions)\<close>;
  the model holds the number that \<open>BigInt\<close> reads from the decimal string, and
  \<open>None\<close> when \<open>ctx.member\<close> is absent), the command name, the option values
  and the channel settings' mute flag as the settings collaborator returned it.
\<close>

record ctx =
  ctx_user :: user
  channelId :: string
  guildId :: "string option"
  member :: "int option"
  command_name :: string
  options :: "(string \<times> string) list"
  muted :: bool

datatype message =
    AnswerRelay string string
  | AnsweredNotice string string
  | NextQuestion string string

record sentry_extras =
  extra_user :: string
  extra_command :: string
  extra_args :: "(string \<times> string) list"
  extra_channelId :: string

datatype event =
    Reply string
  | SendMessage string message
  | EditMessage string "string option" message
  | FetchGuild string
  | DbGetNextParanoia string
  | DbRemoveParanoiaQuestion nat
  | DbSetParanoiaMessageId nat string
  | DbGetRandomQuestion string "string list"
  | ConsoleWarn
  | ConsoleError
  | SentryCapture sentry_extras js_error
  | TrackCommandUse string bool
  | TrackAPIRequest string string
  | HandleButton
  | HandlerEvent event

definition xmark :: string where
  "xmark = '':x:''"

definition checkmark :: string where
  "checkmark = '':white_check_mark:''"

section \<open>Functions.ts: the permission check\<close>

text \<open>
  A \<open>Permission\<close> is a key of \<open>PermissionFlagsBits\<close> or one of its bigint values.
  The table \<open>PermissionFlagsBits\<close> comes from the package discord-api-types; it is a
  parameter here: its entries in key order. JavaScript's bigints are unbounded
  two's-complement integers, as \<open>int\<close> with \<open>AND\<close>, \<open>OR\<close>, \<open>NOT\<close> is.
\<close>

datatype Permission = PermKey string | PermBits int

type_synonym flag_table = "(string \<times> int) list"

text \<open>
  \<open>command.perms.map(...).reduce((a, c) => a | c, 0n)\<close>. A key outside the table
  reads \<open>undefined\<close>, and \<open>a | undefined\<close> on a bigint throws a TypeError.
\<close>

fun required_bits :: "flag_table \<Rightarrow> Permission list \<Rightarrow> int \<Rightarrow> js_error + int" where
  "required_bits flags [] a = Inr a"
| "required_bits flags (PermBits c # ps) a = required_bits flags ps (a OR c)"
| "required_bits flags (PermKey k # ps) a =
     (case map_of flags k of
        None \<Rightarrow> Inl TypeError
      | Some c \<Rightarrow> required_bits flags ps (a OR c))"

definition missingNames :: "flag_table \<Rightarrow> int \<Rightarrow> string list" where
  "missingNames flags missing =
     filter (\<lambda>key. case map_of flags key of None \<Rightarrow> False | Some v \<Rightarrow> v AND missing \<noteq> 0)
       (map fst flags)"

text \<open>\<open>p.replaceAll(/([a-z])([A-Z])/g, '$1 $2')\<close>\<close>

definition is_lower :: "char \<Rightarrow> bool" where
  "is_lower c = (97 \<le> (of_char c :: nat) \<and> (of_char c :: nat) \<le> 122)"

definition is_upper :: "char \<Rightarrow> bool" where
  "is_upper c = (65 \<le> (of_char c :: nat) \<and> (of_char c :: nat) \<le> 90)"

fun spaced :: "string \<Rightarrow> string" where
  "spaced (a # b # cs) =
     (if is_lower a \<and> is_upper b then a # CHR '' '' # b # spaced cs
      else a # spaced (b # cs))"
| "spaced cs = cs"

fun join :: "string \<Rightarrow> string list \<Rightarrow> string" where
  "join sep [] = []"
| "join sep [x] = x"
| "join sep (x # y # ys) = x @ sep @ join sep (y # ys)"

text \<open>
  \<open>embed(description, user, fail)\<close>: only the description is modelled (the author and
  the colour play no part in any property here). \<open>fail\<close> is \<open>true\<close>, \<open>false\<close> or
  \<open>null\<close>.
\<close>

definition embed :: "string \<Rightarrow> bool option \<Rightarrow> string" where
  "embed description fail =
     (case fail of Some True \<Rightarrow> xmark | Some False \<Rightarrow> checkmark | None \<Rightarrow> []) @ '' '' @ description"

definition missing_message :: "string list \<Rightarrow> string" where
  "missing_message names =
     ''You are missing the following required permissions: '' @
     join '', '' (map (\<lambda>p. ''`'' @ spaced p @ ''`'') names)"

text \<open>
  \<open>checkPerms(command, ctx)\<close>, with the command's \<open>perms\<close>. The result is the
  boolean returned and the replies sent on the way (the source's "side effect & return
  type").
\<close>

definition checkPerms :: "flag_table \<Rightarrow> Permission list \<Rightarrow> ctx \<Rightarrow> js_error + (bool \<times> event list)" where
  "checkPerms flags perms c =
     (case member c of
        None \<Rightarrow> Inr (True, [])
      | Some granted \<Rightarrow>
          (case required_bits flags perms 0 of
             Inl e \<Rightarrow> Inl e
           | Inr required \<Rightarrow>
               (let missing = required AND NOT granted
                in if missing \<noteq> 0
                   then Inr (False, [Reply (embed (missing_message (missingNames flags missing)) (Some True))])
                   else Inr (True, []))))"

text \<open>
  \<open>hasPermission(permission, permissions?)\<close>: \<open>permissions\<close> is absent (\<open>None\<close>)
  or the bitmask read from the string.
\<close>

definition hasPermission :: "flag_table \<Rightarrow> Permission \<Rightarrow> int option \<Rightarrow> js_error + bool" where
  "hasPermission flags permission permissions =
     (case permissions of
        None \<Rightarrow> Inr True
      | Some granted \<Rightarrow>
          (case required_bits flags [permission] 0 of
             Inl e \<Rightarrow> Inl e
           | Inr required \<Rightarrow> Inr (required AND NOT granted = 0)))"

section \<open>The paranoia queue (Database) and commands/answer.ts\<close>

record ParanoiaEntry =
  entry_id :: nat
  userId :: string
  entry_guildId :: string
  entry_channelId :: string
  questionText :: string
  questionRating :: string
  questionId :: string
  dmMessageId :: "string option"

text \<open>
  The class Database is not among the sources; the three calls that \<open>answer.run\<close>
  makes to it are modelled from the spec's paranoia queue. The table is the list of the
  entries in creation order; the calls name an entry by its \<open>id\<close>.
\<close>

type_synonym database = "ParanoiaEntry list"

text \<open>
  Modelled from the spec: \<open>Database.getNextParanoia\<close> is missing from the sources.
  The spec's \<open>head(recipient)\<close>: the oldest entry for that recipient, or absent.
\<close>

definition getNextParanoia :: "database \<Rightarrow> string \<Rightarrow> ParanoiaEntry option" where
  "getNextParanoia d uid = find (\<lambda>e. userId e = uid) d"

text \<open>
  Modelled from the spec: \<open>Database.removeParanoiaQuestion\<close> is missing from the
  sources. The spec's removal of the answered entry, which the source names by its
  \<open>id\<close>.
\<close>

definition removeParanoiaQuestion :: "database \<Rightarrow> nat \<Rightarrow> database" where
  "removeParanoiaQuestion d i = filter (\<lambda>e. entry_id e \<noteq> i) d"

text \<open>
  Modelled from the spec: \<open>Database.setParanoiaMessageId\<close> is missing from the
  sources. The spec's \<open>attach_delivery(entry, messageId)\<close>: the entry records the
  identifier of the delivered message.
\<close>

definition setParanoiaMessageId :: "database \<Rightarrow> nat \<Rightarrow> string \<Rightarrow> database" where
  "setParanoiaMessageId d i mid =
     map (\<lambda>e. if entry_id e = i then e\<lparr>dmMessageId := Some mid\<rparr> else e) d"

text \<open>
  What the platform answers to the calls of one run of the answer command.
  \<open>sendMessage\<close> and \<open>editMessage\<close> (Functions.ts) have no \<open>catch\<close>: the awaited
  promise either rejects (\<open>Threw\<close>) or gives the response body, which the callers test
  for being absent (\<open>Body None\<close>) and otherwise read the message id of.
  \<open>fetchGuild\<close> catches and gives \<open>null\<close> (\<open>None\<close>) or the guild, of which the
  name is read. \<open>shown\<close> is \<open>Math.random() < 0.5\<close>.
\<close>

datatype rest_result = Threw | Body "string option"

record world =
  relay_result :: rest_result
  edit_result :: rest_result
  guild_result :: "string option"
  next_result :: rest_result
  shown :: bool

record run_result =
  events :: "event list"
  db :: database
  raised :: "js_error option"

definition returns :: "event list \<Rightarrow> database \<Rightarrow> run_result" where
  "returns evs d = \<lparr>events = evs, db = d, raised = None\<rparr>"

definition throws :: "js_error \<Rightarrow> event list \<Rightarrow> database \<Rightarrow> run_result" where
  "throws e evs d = \<lparr>events = evs, db = d, raised = Some e\<rparr>"

definition dm_only_message :: string where
  "dm_only_message = xmark @ '' Paranoia questions can only be answered in DMs.''"

definition no_active_message :: string where
  "no_active_message = xmark @ '' You don't have any active paranoia questions.''"

definition relay_failed_message :: "ParanoiaEntry \<Rightarrow> string" where
  "relay_failed_message p =
     embed (''Message failed to send, please make sure I can send messages in <#'' @
            entry_channelId p @ ''> and then try again.'') (Some True)"

definition answer_sent_message :: string where
  "answer_sent_message = checkmark @ '' Answer sent!''"

definition lucky_text :: string where
  "lucky_text = ''The user got lucky, question wasn't shared.''"

text \<open>\<open>paranoiaAnswer.slice(0, 1021) + (paranoiaAnswer.length > 1021 ? '...' : '')\<close>\<close>

definition clip :: "string \<Rightarrow> string" where
  "clip a = take 1021 a @ (if length a > 1021 then ''...'' else [])"

definition guild_label :: "string \<Rightarrow> string \<Rightarrow> string" where
  "guild_label name gid = (if name = [] then ''Unknown Guild ('' @ gid @ '')'' else name)"

text \<open>
  \<open>answer.run(ctx)\<close>. The events are in the order of the source's statements; the
  database is threaded through. A rejected promise and the TypeError of reading
  \<open>.slice\<close> of an absent option or \<open>.name\<close> of a \<open>null\<close> guild leave the
  function at that point (\<open>throws\<close>).
\<close>

definition deliver_next :: "world \<Rightarrow> ctx \<Rightarrow> event list \<Rightarrow> database \<Rightarrow> run_result" where
  "deliver_next w c evs d =
     (case getNextParanoia d (user_id (ctx_user c)) of
        None \<Rightarrow> returns (evs @ [DbGetNextParanoia (user_id (ctx_user c))]) d
      | Some n \<Rightarrow>
          (let evs1 = evs @ [DbGetNextParanoia (user_id (ctx_user c)), FetchGuild (entry_guildId n)]
           in case guild_result w of
                None \<Rightarrow> throws TypeError (evs1 @ [ConsoleWarn]) d
              | Some gname \<Rightarrow>
                  (let evs2 = evs1 @
                         [SendMessage (channelId c)
                            (NextQuestion (questionText n) (guild_label gname (entry_guildId n)))]
                   in case next_result w of
                        Threw \<Rightarrow> throws (HandlerError ''sendMessage'') evs2 d
                      | Body None \<Rightarrow> returns (evs2 @ [ConsoleError]) d
                      | Body (Some mid) \<Rightarrow>
                          returns (evs2 @ [DbSetParanoiaMessageId (entry_id n) mid])
                            (setParanoiaMessageId d (entry_id n) mid))))"

definition answer_run :: "world \<Rightarrow> ctx \<Rightarrow> database \<Rightarrow> run_result" where
  "answer_run w c d =
     (if guildId c \<noteq> None then returns [Reply dm_only_message] d
      else
        (case getNextParanoia d (user_id (ctx_user c)) of
           None \<Rightarrow> returns [DbGetNextParanoia (user_id (ctx_user c)), Reply no_active_message] d
         | Some p \<Rightarrow>
             (case map_of (options c) ''answer'' of
                None \<Rightarrow> throws TypeError [DbGetNextParanoia (user_id (ctx_user c))] d
              | Some paranoiaAnswer \<Rightarrow>
                  (let evs1 =
                         [DbGetNextParanoia (user_id (ctx_user c)),
                          SendMessage (entry_channelId p)
                            (AnswerRelay (if shown w then questionText p else lucky_text)
                               (clip paranoiaAnswer))]
                   in case relay_result w of
                        Threw \<Rightarrow> throws (HandlerError ''sendMessage'') evs1 d
                      | Body None \<Rightarrow> returns (evs1 @ [Reply (relay_failed_message p)]) d
                      | Body (Some message) \<Rightarrow>
                          (let evs2 = evs1 @
                                 [EditMessage (channelId c) (dmMessageId p)
                                    (AnsweredNotice (questionText p) (entry_channelId p))]
                           in case edit_result w of
                                Threw \<Rightarrow> throws (HandlerError ''editMessage'') evs2 d
                              | Body editedMessage \<Rightarrow>
                                  deliver_next w c
                                    (evs2 @ (if editedMessage = None then [ConsoleWarn] else []) @
                                     [DbRemoveParanoiaQuestion (entry_id p), Reply answer_sent_message])
                                    (removeParanoiaQuestion d (entry_id p)))))))"

text \<open>
  \<open>no_earlier a P tr\<close>: no event satisfying \<open>P\<close> stands in \<open>tr\<close> before the first
  occurrence of \<open>a\<close> (and none at all when \<open>a\<close> does not occur).
\<close>

fun no_earlier :: "event \<Rightarrow> (event \<Rightarrow> bool) \<Rightarrow> event list \<Rightarrow> bool" where
  "no_earlier a P [] = True"
| "no_earlier a P (x # xs) = (if x = a then True else \<not> P x \<and> no_earlier a P xs)"

fun is_delivery :: "event \<Rightarrow> bool" where
  "is_delivery (DbGetNextParanoia u) = True"
| "is_delivery (FetchGuild g) = True"
| "is_delivery (SendMessage ch (NextQuestion t g)) = True"
| "is_delivery (DbSetParanoiaMessageId i m) = True"
| "is_delivery e = False"

fun is_side_effect :: "event \<Rightarrow> bool" where
  "is_side_effect (SendMessage ch m) = True"
| "is_side_effect (EditMessage ch i m) = True"
| "is_side_effect (FetchGuild g) = True"
| "is_side_effect (DbRemoveParanoiaQuestion i) = True"
| "is_side_effect (DbSetParanoiaMessageId i m) = True"
| "is_side_effect e = False"

fun is_queue_access :: "event \<Rightarrow> bool" where
  "is_queue_access (DbGetNextParanoia u) = True"
| "is_queue_access (DbRemoveParanoiaQuestion i) = True"
| "is_queue_access (DbSetParanoiaMessageId i m) = True"
| "is_queue_access e = False"

section \<open>Client.ts: the usage statistics\<close>

text \<open>
  A counter kept in an object under a command name is a JavaScript number:
  \<open>obj[k]++\<close> on a key that is absent stores \<open>NaN\<close>, and \<open>NaN\<close> stays.
  The running average is a double in the source; the model computes it exactly, on
  the reals, and leaves the rounding of the division out.
\<close>

datatype count = Count nat | NaN

record stats =
  minuteCommandCount :: nat
  perMinuteCommandAverage :: real
  minutesPassed :: nat
  commands :: "string \<rightharpoonup> count"
  minuteCommands :: "string \<rightharpoonup> count"

definition post_incr :: "(string \<rightharpoonup> count) \<Rightarrow> string \<Rightarrow> (string \<rightharpoonup> count)" where
  "post_incr m k = m(k \<mapsto> (case m k of Some (Count n) \<Rightarrow> Count (Suc n) | _ \<Rightarrow> NaN))"

text \<open>The constructor's \<open>this.stats = {...}\<close>.\<close>

definition initial_stats :: stats where
  "initial_stats =
     \<lparr>minuteCommandCount = 0, perMinuteCommandAverage = 0, minutesPassed = 0,
      commands = Map.empty, minuteCommands = Map.empty\<rparr>"

text \<open>
  \<open>start\<close>, lines 113 to 116: for every loaded command, both counters are set to 0.
\<close>

fun register_names :: "string list \<Rightarrow> stats \<Rightarrow> stats" where
  "register_names [] s = s"
| "register_names (n # ns) s =
     register_names ns
       (s\<lparr>commands := (commands s)(n \<mapsto> Count 0), minuteCommands := (minuteCommands s)(n \<mapsto> Count 0)\<rparr>)"

text \<open>
  The callback of \<open>setInterval(..., 60 * 1000)\<close>. The numerator is evaluated before
  \<open>++this.stats.minutesPassed\<close>, which gives the divisor. The post to the statistics
  service reads the counters and changes none.
\<close>

definition flush :: "stats \<Rightarrow> stats" where
  "flush s =
     s\<lparr>perMinuteCommandAverage :=
         (perMinuteCommandAverage s * real (minutesPassed s) + real (minuteCommandCount s))
           / real (Suc (minutesPassed s)),
       minutesPassed := Suc (minutesPassed s),
       minuteCommands := (\<lambda>k. map_option (\<lambda>_. Count 0) (minuteCommands s k)),
       minuteCommandCount := 0\<rparr>"

text \<open>The three increments of \<open>handleCommand\<close>, lines 130 to 132.\<close>

definition count_use :: "string \<Rightarrow> stats \<Rightarrow> stats" where
  "count_use n s =
     s\<lparr>minuteCommandCount := Suc (minuteCommandCount s),
       commands := post_incr (commands s) n,
       minuteCommands := post_incr (minuteCommands s) n\<rparr>"

text \<open>A minute-by-minute history of the collector: dispatched commands and timer ticks.\<close>

datatype tick = Use string | Flush

fun tick_step :: "stats \<Rightarrow> tick \<Rightarrow> stats" where
  "tick_step s (Use n) = count_use n s"
| "tick_step s Flush = flush s"

section \<open>Server.ts: the rate limiter\<close>

record limiter_config =
  windowMs :: nat
  max_hits :: nat
  skipFailedRequests :: bool

text \<open>The options of \<open>APIRateLimit\<close>, lines 23 to 26.\<close>

definition APIRateLimit :: limiter_config where
  "APIRateLimit = \<lparr>windowMs = 5 * 1000, max_hits = 5, skipFailedRequests = True\<rparr>"

record RateWindow =
  hit_count :: nat
  window_start :: nat

type_synonym limiter = "string \<rightharpoonup> RateWindow"

text \<open>
  Modelled from the spec: the middleware that \<open>rateLimiter(...)\<close> builds belongs to
  the package express-rate-limit, which is not among the sources. The spec's
  RateLimiter: on each admission check, if no window exists or the current window has
  elapsed, start a new window with count 1 and admit; otherwise increment the count and
  admit only if the count is at most the maximum. Times are in milliseconds.
\<close>

definition admit :: "limiter_config \<Rightarrow> nat \<Rightarrow> string \<Rightarrow> limiter \<Rightarrow> bool \<times> limiter" where
  "admit cfg now key l =
     (case l key of
        None \<Rightarrow> (True, l(key \<mapsto> \<lparr>hit_count = 1, window_start = now\<rparr>))
      | Some w \<Rightarrow>
          if window_start w + windowMs cfg \<le> now
          then (True, l(key \<mapsto> \<lparr>hit_count = 1, window_start = now\<rparr>))
          else (hit_count w + 1 \<le> max_hits cfg, l(key \<mapsto> w\<lparr>hit_count := hit_count w + 1\<rparr>)))"

text \<open>
  Modelled from the spec: the middleware of the package express-rate-limit is not among
  the sources, and the spec's RateLimiter describes the admission check only. The
  source passes the option \<open>skipFailedRequests: true\<close> (line 26), which the package
  documents: a request whose response fails (status 400 or above) is not counted, its
  increment is taken back when the response is finished. \<open>settle\<close> is that step, for a
  response finished with status \<open>code\<close>.
\<close>

definition settle :: "limiter_config \<Rightarrow> string \<Rightarrow> nat \<Rightarrow> limiter \<Rightarrow> limiter" where
  "settle cfg key code l =
     (if skipFailedRequests cfg \<and> 400 \<le> code
      then (case l key of
              None \<Rightarrow> l
            | Some w \<Rightarrow> l(key \<mapsto> w\<lparr>hit_count := hit_count w - 1\<rparr>))
      else l)"

text \<open>
  One request through the limiter: the admission check, then, when the response is
  finished, the settling. An admitted request is answered by the route behind the
  limiter with status \<open>code\<close>; a rejected one by the limiter's \<open>handler\<close> with 429.
\<close>

definition limit_request :: "limiter_config \<Rightarrow> nat \<Rightarrow> string \<Rightarrow> nat \<Rightarrow> limiter \<Rightarrow> bool \<times> limiter" where
  "limit_request cfg now key code l =
     (let (ok, l1) = admit cfg now key l
      in if ok then (True, settle cfg key code l1) else (False, settle cfg key 429 l1))"

text \<open>Requests of one identity, one after the other: the times and the response statuses.\<close>

fun limit_all :: "limiter_config \<Rightarrow> string \<Rightarrow> (nat \<times> nat) list \<Rightarrow> limiter \<Rightarrow> bool list \<times> limiter" where
  "limit_all cfg key [] l = ([], l)"
| "limit_all cfg key ((now, code) # rest) l =
     (let r = limit_request cfg now key code l;
          rs = limit_all cfg key rest (snd r)
      in (fst r # fst rs, snd rs))"

section \<open>Server.ts: commands and the router\<close>

record command =
  cmd_name :: string
  perms :: "Permission list"
  run :: "ctx \<Rightarrow> stats \<Rightarrow> database \<Rightarrow> run_result"

record server_state =
  server_stats :: stats
  paranoia :: database
  hits :: limiter

record handled =
  trace :: "event list"
  state :: server_state
  escaped :: "js_error option"

definition failure_message :: string where
  "failure_message = xmark @ '' Something went wrong while running that command.''"

definition muted_message :: string where
  "muted_message = xmark @ '' I am muted in this channel. Use `/settings unmute` to unmute me.''"

definition PASSTHROUGH_COMMANDS :: "string list" where
  "PASSTHROUGH_COMMANDS = [''settings'']"

definition extras_of :: "command \<Rightarrow> ctx \<Rightarrow> sentry_extras" where
  "extras_of cmd c =
     \<lparr>extra_user = username (ctx_user c) @ ''#'' @ discriminator (ctx_user c) @
                    '' ('' @ user_id (ctx_user c) @ '')'',
      extra_command = cmd_name cmd,
      extra_args = options c,
      extra_channelId = channelId c\<rparr>"

text \<open>
  \<open>handleCommand(ctx)\<close>. A handler reads the context and, through
  \<open>ctx.client\<close>, the statistics and the database as they are when it is called:
  they are its arguments. The handler's own events are wrapped in \<open>HandlerEvent\<close>, so
  that what the router does is told apart from what the handler did. \<open>extra_args\<close>
  holds the options that \<open>JSON.stringify\<close> serialises. \<open>checkPerms\<close> is called
  outside the \<open>try\<close>: an error of its own escapes.
\<close>

definition handleCommand :: "flag_table \<Rightarrow> command list \<Rightarrow> ctx \<Rightarrow> server_state \<Rightarrow> handled" where
  "handleCommand flags cmds c st =
     (case find (\<lambda>cmd. cmd_name cmd = command_name c) cmds of
        None \<Rightarrow> \<lparr>trace = [ConsoleError], state = st, escaped = None\<rparr>
      | Some cmd \<Rightarrow>
          (case checkPerms flags (perms cmd) c of
             Inl e \<Rightarrow> \<lparr>trace = [], state = st, escaped = Some e\<rparr>
           | Inr (False, replies) \<Rightarrow> \<lparr>trace = replies, state = st, escaped = None\<rparr>
           | Inr (True, replies) \<Rightarrow>
               (let counted = count_use (cmd_name cmd) (server_stats st);
                    r = run cmd c counted (paranoia st);
                    st1 = st\<lparr>server_stats := counted, paranoia := db r\<rparr>
                in case raised r of
                     None \<Rightarrow>
                       \<lparr>trace = replies @ map HandlerEvent (events r) @
                                [TrackCommandUse (cmd_name cmd) True],
                        state = st1, escaped = None\<rparr>
                   | Some err \<Rightarrow>
                       \<lparr>trace = replies @ map HandlerEvent (events r) @
                                [ConsoleError, SentryCapture (extras_of cmd c) err,
                                 Reply failure_message, TrackCommandUse (cmd_name cmd) False],
                        state = st1, escaped = None\<rparr>)))"

text \<open>Kinds of events in a trace of the router.\<close>

fun is_capture :: "event \<Rightarrow> bool" where
  "is_capture (SentryCapture x e) = True"
| "is_capture e = False"

fun is_handler_event :: "event \<Rightarrow> bool" where
  "is_handler_event (HandlerEvent e) = True"
| "is_handler_event e = False"

fun is_tally :: "event \<Rightarrow> bool" where
  "is_tally (TrackCommandUse n ok) = True"
| "is_tally e = False"

datatype command_type = ChatInput | UserCommand | MessageCommand

datatype component_type = Button | OtherComponent

datatype interaction =
    Ping
  | ApplicationCommand command_type ctx
  | MessageComponent component_type ctx
  | OtherInteraction

text \<open>
  \<open>handleRequest(req, res)\<close>, on the interaction of the request body. The button
  handler is not among the sources: its call is one event.
\<close>

fun handleRequest :: "flag_table \<Rightarrow> command list \<Rightarrow> interaction \<Rightarrow> server_state \<Rightarrow> handled" where
  "handleRequest flags cmds (ApplicationCommand ChatInput c) st =
     (if muted c \<and> command_name c \<notin> set PASSTHROUGH_COMMANDS
      then \<lparr>trace = [Reply muted_message], state = st, escaped = None\<rparr>
      else handleCommand flags cmds c st)"
| "handleRequest flags cmds (MessageComponent Button c) st =
     (if muted c
      then \<lparr>trace = [Reply muted_message], state = st, escaped = None\<rparr>
      else \<lparr>trace = [HandleButton], state = st, escaped = None\<rparr>)"
| "handleRequest flags cmds i st = \<lparr>trace = [], state = st, escaped = None\<rparr>"

section \<open>Server.ts: the public question API\<close>

record question =
  q_type :: string
  q_rating :: string
  q_text :: string

text \<open>
  What \<open>handleAPI\<close> takes from outside the sources: the values of the enums
  \<open>QuestionType\<close> and \<open>Rating\<close> (generated by the database client), the built-in
  \<open>String.prototype.toUpperCase\<close>, and the question that
  \<open>database.getRandomQuestion(type, disabledRatings)\<close> gives back.
\<close>

record api_env =
  QuestionType :: "string list"
  Rating :: "string list"
  toUpperCase :: "string \<Rightarrow> string"
  getRandomQuestion :: "string \<Rightarrow> string list \<Rightarrow> question"

text \<open>
  \<open>req.query.rating\<close>: absent, one value or an array of values. A value is a string,
  or an object or array that the query parser built from bracketed keys. Of such a
  value the code reads the property \<open>toUpperCase\<close>: \<open>QOther\<close> has none,
  \<open>QShadowed\<close> carries one of its own (\<open>?rating[toUpperCase]=x\<close>), which is a
  string, an object or an array and never a function.
\<close>

datatype qvalue = QString string | QOther | QShadowed

datatype rating_query = NoRating | OneRating qvalue | ManyRatings "qvalue list"

datatype body =
    ErrorBody string
  | QuestionBody question
  | TextBody string
  | Redirect string
  | Pong

record response =
  status :: nat
  content :: body

definition quoted :: "string list \<Rightarrow> string" where
  "quoted vals = join '' '' (map (\<lambda>q. [CHR 0x27] @ q @ [CHR 0x27]) vals)"

definition type_error_message :: "api_env \<Rightarrow> string" where
  "type_error_message env =
     ''The question type must be one of the following: '' @ quoted (QuestionType env)"

definition rating_error_message :: "api_env \<Rightarrow> string" where
  "rating_error_message env =
     ''The rating must be one of the following: '' @ quoted (Rating env)"

text \<open>\<open>!rating\<close>: the parameter is absent or the empty string.\<close>

fun no_rating :: "rating_query \<Rightarrow> bool" where
  "no_rating NoRating = True"
| "no_rating (OneRating (QString s)) = (s = [])"
| "no_rating r = False"

fun ratingArray :: "rating_query \<Rightarrow> qvalue list" where
  "ratingArray (ManyRatings vs) = vs"
| "ratingArray (OneRating v) = [v]"
| "ratingArray NoRating = []"

text \<open>
  The loop of lines 180 to 188, on
  \<open>Object.values(Rating).includes(rating.toUpperCase?.())\<close>. For a string the call
  gives its upper-case form. For a value without the property the optional call gives
  \<open>undefined\<close>, which the enum does not include. For a value whose property is not
  a function the call throws a TypeError. The loop ends at the first value that is not
  a valid rating.
\<close>

datatype validation = AllValid | Invalid | Thrown

fun validate :: "api_env \<Rightarrow> qvalue list \<Rightarrow> validation" where
  "validate env [] = AllValid"
| "validate env (QString s # vs) =
     (if toUpperCase env s \<in> set (Rating env) then validate env vs else Invalid)"
| "validate env (QOther # vs) = Invalid"
| "validate env (QShadowed # vs) = Thrown"

text \<open>
  \<open>ratingArray.map(r => r.toUpperCase())\<close>, reached only when every value is a
  string.
\<close>

fun upper_value :: "api_env \<Rightarrow> qvalue \<Rightarrow> string" where
  "upper_value env (QString s) = toUpperCase env s"
| "upper_value env v = []"

definition disabledRatings :: "api_env \<Rightarrow> qvalue list \<Rightarrow> string list" where
  "disabledRatings env vs =
     filter (\<lambda>a. a \<notin> set (map (upper_value env) vs)) (Rating env)"

text \<open>
  \<open>handleAPI(req, res)\<close>, on the route parameter \<open>questionType\<close> and the query
  parameter \<open>rating\<close>: the events and the response sent, or the error with which the
  promise of the handler rejects; then no response is sent.
\<close>

definition handleAPI :: "api_env \<Rightarrow> string \<Rightarrow> rating_query \<Rightarrow> js_error + (event list \<times> response)" where
  "handleAPI env param rating =
     (let questionType = toUpperCase env param
      in if questionType \<notin> set (QuestionType env)
         then Inr ([], \<lparr>status = 400, content = ErrorBody (type_error_message env)\<rparr>)
         else if no_rating rating
         then Inr ([DbGetRandomQuestion questionType [''R'']],
                   \<lparr>status = 200,
                    content = QuestionBody (getRandomQuestion env questionType [''R''])\<rparr>)
         else
           (case validate env (ratingArray rating) of
              Thrown \<Rightarrow> Inl TypeError
            | Invalid \<Rightarrow> Inr ([], \<lparr>status = 400, content = ErrorBody (rating_error_message env)\<rparr>)
            | AllValid \<Rightarrow>
                (let disabled = disabledRatings env (ratingArray rating);
                     q = getRandomQuestion env questionType disabled
                 in Inr ([DbGetRandomQuestion questionType disabled,
                          TrackAPIRequest (q_type q) (q_rating q)],
                         \<lparr>status = 200, content = QuestionBody q\<rparr>))))"

section \<open>Server.ts: the routes\<close>

datatype http_method = GET | POST

text \<open>
  A request: the method, the path as its segments, the address the limiter keys on
  (\<open>req.ip\<close>, the package's default key), whether the signature of the body verifies,
  the interaction of the body, the \<open>rating\<close> query parameter, and whether the bearer
  credential equals the configured secret.
\<close>

record request =
  req_method :: http_method
  req_path :: "string list"
  req_ip :: string
  signature_ok :: bool
  req_body :: interaction
  query_rating :: rating_query
  bearer_ok :: bool

record served =
  sent :: "response option"
  served_trace :: "event list"
  served_state :: server_state
  served_escaped :: "js_error option"

record server_env =
  PermissionFlagsBits :: flag_table
  client_commands :: "command list"
  api :: api_env
  metrics_text :: string

definition lower_char :: "char \<Rightarrow> char" where
  "lower_char c =
     (case map_of (zip ''ABCDEFGHIJKLMNOPQRSTUVWXYZ'' ''abcdefghijklmnopqrstuvwxyz'') c of
        None \<Rightarrow> c
      | Some l \<Rightarrow> l)"

text \<open>
  \<open>router.use('/api/', APIRateLimit)\<close> and \<open>router.use('/v1/', APIRateLimit)\<close>:
  the limiter stands before every route whose first segment is \<open>api\<close> or \<open>v1\<close>
  (the framework compares route literals without regard to case).
\<close>

definition rate_limited :: "string list \<Rightarrow> bool" where
  "rate_limited p =
     (case p of
        [] \<Rightarrow> False
      | seg # rest \<Rightarrow> map lower_char seg = ''api'' \<or> map lower_char seg = ''v1'')"

definition too_many :: response where
  "too_many = \<lparr>status = 429, content = ErrorBody ''Too many requests, please try again later.''\<rparr>"

text \<open>
  The routes of the constructor, in the order of their registration, after the
  limiter. \<open>verifyKeyMiddleware\<close> (package discord-interactions) refuses a body whose
  signature does not verify with status 401 and answers a ping itself; the reply to an
  interaction is written by \<open>ctx.reply\<close>, an event of the trace. A request that no
  route matches gets the framework's 404.
\<close>

definition respond :: "nat \<Rightarrow> body \<Rightarrow> server_state \<Rightarrow> served" where
  "respond code b st =
     \<lparr>sent = Some \<lparr>status = code, content = b\<rparr>, served_trace = [], served_state = st,
      served_escaped = None\<rparr>"

definition api_route :: "server_env \<Rightarrow> string \<Rightarrow> request \<Rightarrow> server_state \<Rightarrow> served" where
  "api_route env questionType req st =
     (case handleAPI (api env) questionType (query_rating req) of
        Inl e \<Rightarrow> \<lparr>sent = None, served_trace = [], served_state = st, served_escaped = Some e\<rparr>
      | Inr (evs, r) \<Rightarrow>
          \<lparr>sent = Some r, served_trace = evs, served_state = st, served_escaped = None\<rparr>)"

definition interactions_route :: "server_env \<Rightarrow> request \<Rightarrow> server_state \<Rightarrow> served" where
  "interactions_route env req st =
     (if \<not> signature_ok req then respond 401 (TextBody ''Invalid signature'') st
      else if req_body req = Ping then respond 200 Pong st
      else
        (let h = handleRequest (PermissionFlagsBits env) (client_commands env) (req_body req) st
         in \<lparr>sent = None, served_trace = trace h, served_state = state h,
              served_escaped = escaped h\<rparr>))"

definition dispatch :: "server_env \<Rightarrow> request \<Rightarrow> server_state \<Rightarrow> served" where
  "dispatch env req st =
     (let p = map (map lower_char) (req_path req)
      in if req_method req = POST \<and> p = [''interactions''] then interactions_route env req st
         else if req_method req = GET \<and> length p = 2 \<and> hd p = ''api''
         then api_route env (last (req_path req)) req st
         else if req_method req = GET \<and> length p = 2 \<and> hd p = ''v1''
         then api_route env (last (req_path req)) req st
         else if req_method req = GET \<and> p = [''metrics'']
         then (if \<not> bearer_ok req then respond 401 (TextBody ''Unauthorized'') st
               else respond 200 (TextBody (metrics_text env)) st)
         else if req_method req = GET \<and> p = []
         then respond 302 (Redirect ''https://docs.truthordarebot.xyz/api-docs'') st
         else respond 404 (TextBody ''Not Found'') st)"

text \<open>
  Modelled from the spec: the middleware of the package express-rate-limit is not among
  the sources. With \<open>skipFailedRequests\<close> the package documents as failed, besides a
  response of status 400 or above, a request that is closed before a response was sent:
  that is the request of a handler whose promise rejected.
\<close>

definition settle_sent :: "limiter_config \<Rightarrow> string \<Rightarrow> response option \<Rightarrow> limiter \<Rightarrow> limiter" where
  "settle_sent cfg key r l =
     (case r of
        Some resp \<Rightarrow> settle cfg key (status resp) l
      | None \<Rightarrow>
          if skipFailedRequests cfg
          then (case l key of
                  None \<Rightarrow> l
                | Some w \<Rightarrow> l(key \<mapsto> w\<lparr>hit_count := hit_count w - 1\<rparr>))
          else l)"

text \<open>
  One request at time \<open>now\<close> (milliseconds), through the middleware stack of the
  constructor: the limiter where it is registered, then the routes; when the response
  is finished the limiter settles the request.
\<close>

definition serve :: "server_env \<Rightarrow> nat \<Rightarrow> request \<Rightarrow> server_state \<Rightarrow> served" where
  "serve env now req st =
     (if rate_limited (req_path req)
      then
        (let (ok, l) = admit APIRateLimit now (req_ip req) (hits st)
         in if \<not> ok
            then \<lparr>sent = Some too_many, served_trace = [],
                  served_state = st\<lparr>hits := settle APIRateLimit (req_ip req) 429 l\<rparr>,
                  served_escaped = None\<rparr>
            else
              (let s = dispatch env req (st\<lparr>hits := l\<rparr>)
               in s\<lparr>served_state :=
                      (served_state s)\<lparr>hits := settle_sent APIRateLimit (req_ip req) (sent s)
                                                 (hits (served_state s))\<rparr>\<rparr>))
      else dispatch env req st)"

fun serve_all :: "server_env \<Rightarrow> (nat \<times> request) list \<Rightarrow> server_state \<Rightarrow> served list" where
  "serve_all env [] st = []"
| "serve_all env ((now, req) # rest) st =
     (let s = serve env now req st in s # serve_all env rest (served_state s))"

section \<open>Sample inputs\<close>

text \<open>Concrete inputs, on which the theorems below are instantiated.\<close>

definition dm_ctx :: ctx where
  "dm_ctx =
     \<lparr>ctx_user = \<lparr>user_id = ''7'', username = ''ann'', discriminator = ''0001''\<rparr>,
      channelId = ''dm7'', guildId = None, member = None, command_name = ''answer'',
      options = [(''answer'', ''blue'')], muted = False\<rparr>"

definition guild_ctx :: ctx where
  "guild_ctx = dm_ctx\<lparr>guildId := Some ''g1'', member := Some 8\<rparr>"

definition sample_flags :: flag_table where
  "sample_flags = [(''Administrator'', 8), (''ManageGuild'', 32)]"

definition e1 :: ParanoiaEntry where
  "e1 = \<lparr>entry_id = 1, userId = ''7'', entry_guildId = ''g1'', entry_channelId = ''c1'',
          questionText = ''Who?'', questionRating = ''PG'', questionId = ''q1'',
          dmMessageId = Some ''m1''\<rparr>"

definition e2 :: ParanoiaEntry where
  "e2 = \<lparr>entry_id = 2, userId = ''7'', entry_guildId = ''g2'', entry_channelId = ''c2'',
          questionText = ''Why?'', questionRating = ''PG13'', questionId = ''q2'',
          dmMessageId = None\<rparr>"

definition all_good :: world where
  "all_good =
     \<lparr>relay_result = Body (Some ''r1''), edit_result = Body (Some ''m1''),
      guild_result = Some ''Guild Two'', next_result = Body (Some ''m2''), shown = True\<rparr>"

definition relay_fails :: world where
  "relay_fails = all_good\<lparr>relay_result := Body None\<rparr>"

definition hits_n :: "nat \<Rightarrow> limiter" where
  "hits_n n = [''ip'' \<mapsto> \<lparr>hit_count = n, window_start = 0\<rparr>]"

definition sample_stats :: stats where
  "sample_stats = register_names [''answer'', ''truth''] initial_stats"

definition truth_cmd :: command where
  "truth_cmd = \<lparr>cmd_name = ''truth'', perms = [], run = (\<lambda>c s d. returns [Reply ''Truth?''] d)\<rparr>"

definition failing_cmd :: command where
  "failing_cmd = \<lparr>cmd_name = ''dare'', perms = [PermBits 8],
     run = (\<lambda>c s d. throws (HandlerError ''boom'') [Reply ''Dare?''] d)\<rparr>"

definition settings_cmd :: command where
  "settings_cmd = \<lparr>cmd_name = ''settings'', perms = [PermKey ''ManageGuild''],
     run = (\<lambda>c s d. returns [Reply ''Unmuted''] d)\<rparr>"

definition sample_cmds :: "command list" where
  "sample_cmds = [truth_cmd, failing_cmd, settings_cmd]"

definition sample_state :: server_state where
  "sample_state = \<lparr>server_stats = register_names [''truth'', ''dare'', ''settings''] initial_stats,
     paranoia = [], hits = Map.empty\<rparr>"

definition muted_ctx :: ctx where
  "muted_ctx = guild_ctx\<lparr>command_name := ''dare'', muted := True\<rparr>"

text \<open>Upper case on the letters a to z, for the sample API environment.\<close>

definition upper_char :: "char \<Rightarrow> char" where
  "upper_char c =
     (case map_of (zip ''abcdefghijklmnopqrstuvwxyz'' ''ABCDEFGHIJKLMNOPQRSTUVWXYZ'') c of
        None \<Rightarrow> c
      | Some u \<Rightarrow> u)"

definition sample_api :: api_env where
  "sample_api =
     \<lparr>QuestionType = [''TRUTH'', ''DARE'', ''WYR'', ''NHIE'', ''PARANOIA''],
      Rating = [''PG'', ''PG13'', ''R''],
      toUpperCase = map upper_char,
      getRandomQuestion = (\<lambda>t disabled. \<lparr>q_type = t, q_rating = ''PG'', q_text = ''What?''\<rparr>)\<rparr>"

definition truth_ctx :: ctx where
  "truth_ctx = guild_ctx\<lparr>command_name := ''truth'', options := []\<rparr>"

definition sample_env :: server_env where
  "sample_env =
     \<lparr>PermissionFlagsBits = sample_flags, client_commands = sample_cmds, api = sample_api,
      metrics_text = ''metrics''\<rparr>"

definition interaction_request :: request where
  "interaction_request =
     \<lparr>req_method = POST, req_path = [''interactions''], req_ip = ''ip'', signature_ok = True,
      req_body = ApplicationCommand ChatInput truth_ctx, query_rating = NoRating,
      bearer_ok = False\<rparr>"

definition api_request :: request where
  "api_request =
     \<lparr>req_method = GET, req_path = [''api'', ''truth''], req_ip = ''ip'', signature_ok = False,
      req_body = OtherInteraction, query_rating = NoRating, bearer_ok = False\<rparr>"

definition bad_type_request :: request where
  "bad_type_request = api_request\<lparr>req_path := [''api'', ''foo'']\<rparr>"

definition busy_state :: server_state where
  "busy_state =
     sample_state\<lparr>server_stats :=
       foldl tick_step (server_stats sample_state) [Use ''dare'', Flush, Use ''dare'']\<rparr>"

definition dare_ctx :: ctx where
  "dare_ctx = guild_ctx\<lparr>command_name := ''dare''\<rparr>"


section \<open>Properties of the permission check\<close>

lemma set_missingNames:
  "set (missingNames flags m) = {k. \<exists>v. map_of flags k = Some v \<and> v AND m \<noteq> 0}"
proof -
  have "k \<in> fst ` set flags" if "map_of flags k = Some v" for k v
    using that by (metis map_of_eq_None_iff option.distinct(1))
  then show ?thesis
    unfolding missingNames_def by (auto split: option.splits)
qed

lemma missingNames_bit:
  assumes "map_of flags k = Some (2 ^ n)"
  shows "(k \<in> set (missingNames flags m)) = bit m n"
proof -
  have "(k \<in> set (missingNames flags m)) = ((2 ^ n :: int) AND m \<noteq> 0)"
    using assms by (simp add: set_missingNames)
  also have "\<dots> = bit m n"
    by (simp add: bit_iff_and_push_bit_not_eq_0 push_bit_eq_mult and.commute)
  finally show ?thesis .
qed

text \<open>
  C3. Without a member context \<open>checkPerms\<close> and \<open>hasPermission\<close> allow. With
  granted bits \<open>granted\<close> and the required bits \<open>required\<close> of the command's
  permissions, they allow exactly when \<open>required AND NOT granted = 0\<close>; when they
  refuse, \<open>checkPerms\<close> replies with the names of \<open>missingNames\<close>; every
  bitmask is the requirement of some command (the last two conjuncts). Those names are the
  keys of the table whose flag meets the missing bits: for a flag of one bit, the key is
  listed exactly when that bit is set in \<open>required AND NOT granted\<close>.
\<close>

theorem checkPerms_allows_iff_nothing_missing:
  "checkPerms flags ps (c\<lparr>member := None\<rparr>) = Inr (True, [])
   \<and> hasPermission flags p None = Inr True
   \<and> (required_bits flags ps 0 = Inr required \<longrightarrow>
        checkPerms flags ps (c\<lparr>member := Some granted\<rparr>) =
          Inr (required AND NOT granted = 0,
               if required AND NOT granted = 0 then []
               else [Reply (embed (missing_message
                       (missingNames flags (required AND NOT granted))) (Some True))]))
   \<and> (required_bits flags [p] 0 = Inr required \<longrightarrow>
        hasPermission flags p (Some granted) = Inr (required AND NOT granted = 0))
   \<and> set (missingNames flags (required AND NOT granted)) =
        {k. \<exists>v. map_of flags k = Some v \<and> v AND (required AND NOT granted) \<noteq> 0}
   \<and> (map_of flags k = Some (2 ^ n) \<longrightarrow>
        (k \<in> set (missingNames flags (required AND NOT granted))) =
          bit (required AND NOT granted) n)
   \<and> map_sum id fst (checkPerms flags [PermBits required] (c\<lparr>member := Some granted\<rparr>)) =
        Inr (required AND NOT granted = 0)
   \<and> hasPermission flags (PermBits required) (Some granted) = Inr (required AND NOT granted = 0)"
proof (intro conjI impI)
  show "checkPerms flags ps (c\<lparr>member := None\<rparr>) = Inr (True, [])"
    by (simp add: checkPerms_def)
  show "hasPermission flags p None = Inr True"
    by (simp add: hasPermission_def)
  show "checkPerms flags ps (c\<lparr>member := Some granted\<rparr>) =
          Inr (required AND NOT granted = 0,
               if required AND NOT granted = 0 then []
               else [Reply (embed (missing_message
                       (missingNames flags (required AND NOT granted))) (Some True))])"
    if "required_bits flags ps 0 = Inr required"
    using that by (simp add: checkPerms_def Let_def)
  show "hasPermission flags p (Some granted) = Inr (required AND NOT granted = 0)"
    if "required_bits flags [p] 0 = Inr required"
    using that by (simp add: hasPermission_def)
  show "set (missingNames flags (required AND NOT granted)) =
        {k. \<exists>v. map_of flags k = Some v \<and> v AND (required AND NOT granted) \<noteq> 0}"
    by (rule set_missingNames)
  show "(k \<in> set (missingNames flags (required AND NOT granted))) =
          bit (required AND NOT granted) n"
    if "map_of flags k = Some (2 ^ n)"
    using that by (rule missingNames_bit)
  show "map_sum id fst (checkPerms flags [PermBits required] (c\<lparr>member := Some granted\<rparr>)) =
        Inr (required AND NOT granted = 0)"
    by (simp add: checkPerms_def Let_def)
  show "hasPermission flags (PermBits required) (Some granted) = Inr (required AND NOT granted = 0)"
    by (simp add: hasPermission_def)
qed

theorem checkPerms_allows_iff_nothing_missing_witness:
  "checkPerms sample_flags [PermKey ''ManageGuild'', PermBits 8] guild_ctx =
     Inr (False, [Reply '':x: You are missing the following required permissions: `Manage Guild`''])
   \<and> checkPerms sample_flags [PermBits 8] guild_ctx = Inr (True, [])
   \<and> checkPerms sample_flags [PermKey ''ManageGuild''] dm_ctx = Inr (True, [])
   \<and> hasPermission sample_flags (PermKey ''ManageGuild'') (Some 8) = Inr False
   \<and> set (missingNames sample_flags (40 AND NOT 8)) = {''ManageGuild''}"
  using
    checkPerms_allows_iff_nothing_missing
      [of sample_flags "[PermKey ''ManageGuild'', PermBits 8]" guild_ctx
          "PermKey ''ManageGuild''" 40 8 "''ManageGuild''" 5]
    checkPerms_allows_iff_nothing_missing
      [of sample_flags "[PermBits 8]" guild_ctx "PermKey ''ManageGuild''" 8 8 "''ManageGuild''" 5]
    checkPerms_allows_iff_nothing_missing
      [of sample_flags "[PermKey ''ManageGuild'']" dm_ctx "PermKey ''ManageGuild''" 32 8
          "''ManageGuild''" 5]
  by (simp add: sample_flags_def guild_ctx_def dm_ctx_def embed_def missing_message_def
      xmark_def is_lower_def is_upper_def missingNames_def)

section \<open>Properties of the answer command\<close>

lemmas answer_defs = answer_run_def deliver_next_def returns_def throws_def Let_def

lemma removed_not_head:
  "getNextParanoia (removeParanoiaQuestion d i) u = Some n \<Longrightarrow> entry_id n \<noteq> i"
  unfolding getNextParanoia_def removeParanoiaQuestion_def
  by (induction d) (auto split: if_splits)

text \<open>
  C10. When the interaction carries a guild identifier, the answer command replies that
  paranoia questions can only be answered in DMs and returns: that reply is its only
  event, so the queue is neither read nor changed and no message is sent or edited.
\<close>

theorem answer_in_guild_replies_and_returns:
  "guildId c \<noteq> None \<Longrightarrow>
     answer_run w c d = \<lparr>events = [Reply dm_only_message], db = d, raised = None\<rparr>
     \<and> \<not> list_ex is_queue_access (events (answer_run w c d))
     \<and> \<not> list_ex is_side_effect (events (answer_run w c d))"
  by (simp add: answer_defs)

theorem answer_in_guild_replies_and_returns_witness:
  "answer_run all_good guild_ctx [e1, e2] =
     \<lparr>events = [Reply '':x: Paranoia questions can only be answered in DMs.''],
      db = [e1, e2], raised = None\<rparr>"
  using answer_in_guild_replies_and_returns [of guild_ctx all_good "[e1, e2]"]
  by (simp add: guild_ctx_def dm_only_message_def xmark_def)

text \<open>
  C1, as the claim states it, fails: with the recipient's entry at the head of the queue
  and a relay send that returns no message, the run leaves the database as it was, the
  entry is still the recipient's head entry and no removal is issued.
\<close>

theorem relay_failure_removes_entry_counterexample:
  "getNextParanoia [e1, e2] ''7'' = Some e1
   \<and> relay_result relay_fails = Body None
   \<and> db (answer_run relay_fails dm_ctx [e1, e2]) = [e1, e2]
   \<and> getNextParanoia (db (answer_run relay_fails dm_ctx [e1, e2])) ''7'' = Some e1
   \<and> DbRemoveParanoiaQuestion 1 \<notin> set (events (answer_run relay_fails dm_ctx [e1, e2]))"
  by (simp add: answer_defs getNextParanoia_def relay_fails_def all_good_def dm_ctx_def
      e1_def e2_def)

text \<open>
  C1, amended. In a direct message, with a pending entry and an answer given, a relay
  send that returns no message ends the run after the failure notice ("... and then try
  again"): the events are the lookup, the relay send and that notice; the database is
  unchanged, so the entry stays the recipient's head entry and can be answered again.
\<close>

theorem relay_failure_keeps_entry:
  assumes "guildId c = None" and "getNextParanoia d (user_id (ctx_user c)) = Some p"
    and "map_of (options c) ''answer'' = Some a" and "relay_result w = Body None"
  shows "answer_run w c d =
           \<lparr>events = [DbGetNextParanoia (user_id (ctx_user c)),
                      SendMessage (entry_channelId p)
                        (AnswerRelay (if shown w then questionText p else lucky_text) (clip a)),
                      Reply (relay_failed_message p)],
            db = d, raised = None\<rparr>
         \<and> getNextParanoia (db (answer_run w c d)) (user_id (ctx_user c)) = Some p"
  using assms by (simp add: answer_defs)

theorem relay_failure_keeps_entry_witness:
  "answer_run relay_fails dm_ctx [e1, e2] =
     \<lparr>events = [DbGetNextParanoia ''7'', SendMessage ''c1'' (AnswerRelay ''Who?'' ''blue''),
                Reply '':x: Message failed to send, please make sure I can send messages in <#c1> and then try again.''],
      db = [e1, e2], raised = None\<rparr>"
  using relay_failure_keeps_entry [of dm_ctx "[e1, e2]" e1 "''blue''" relay_fails]
  by (simp add: getNextParanoia_def relay_fails_def all_good_def dm_ctx_def e1_def e2_def
      relay_failed_message_def embed_def xmark_def clip_def)

text \<open>
  C6. With no pending entry for the caller, no message is sent or edited, no guild is
  fetched, nothing is removed or attached and the database is unchanged; in a direct
  message the run is the lookup and the reply that there is no active question. With a
  pending entry \<open>p\<close>, after the first event no lookup of the next question, no guild
  fetch, no delivery and no attaching of a message id stands before the removal of
  \<open>p\<close> (in a direct message the first event is the lookup that found \<open>p\<close>); the
  head found after the removal is never an entry with the identifier of \<open>p\<close>, and
  whatever is delivered or attached is that new head.
\<close>

theorem next_delivery_after_removal:
  "(getNextParanoia d (user_id (ctx_user c)) = None \<longrightarrow>
       \<not> list_ex is_side_effect (events (answer_run w c d))
       \<and> db (answer_run w c d) = d
       \<and> (guildId c = None \<longrightarrow>
            answer_run w c d =
              \<lparr>events = [DbGetNextParanoia (user_id (ctx_user c)), Reply no_active_message],
               db = d, raised = None\<rparr>))
    \<and> (getNextParanoia d (user_id (ctx_user c)) = Some p \<longrightarrow>
       no_earlier (DbRemoveParanoiaQuestion (entry_id p)) is_delivery
           (tl (events (answer_run w c d)))
       \<and> (guildId c = None \<longrightarrow>
            hd (events (answer_run w c d)) = DbGetNextParanoia (user_id (ctx_user c)))
       \<and> (\<forall>n. getNextParanoia (removeParanoiaQuestion d (entry_id p)) (user_id (ctx_user c)) = Some n
              \<longrightarrow> entry_id n \<noteq> entry_id p)
       \<and> (\<forall>i m. DbSetParanoiaMessageId i m \<in> set (events (answer_run w c d))
              \<longrightarrow> i \<noteq> entry_id p)
       \<and> (\<forall>ch t g. SendMessage ch (NextQuestion t g) \<in> set (events (answer_run w c d)) \<longrightarrow>
            (\<exists>n. getNextParanoia (removeParanoiaQuestion d (entry_id p)) (user_id (ctx_user c)) = Some n
                 \<and> entry_id n \<noteq> entry_id p \<and> t = questionText n)))"
  by (auto simp: answer_defs dest: removed_not_head split: option.splits rest_result.splits)

theorem next_delivery_after_removal_witness:
  "events (answer_run all_good dm_ctx [e1, e2]) =
     [DbGetNextParanoia ''7'', SendMessage ''c1'' (AnswerRelay ''Who?'' ''blue''),
      EditMessage ''dm7'' (Some ''m1'') (AnsweredNotice ''Who?'' ''c1''),
      DbRemoveParanoiaQuestion 1, Reply '':white_check_mark: Answer sent!'',
      DbGetNextParanoia ''7'', FetchGuild ''g2'',
      SendMessage ''dm7'' (NextQuestion ''Why?'' ''Guild Two''),
      DbSetParanoiaMessageId 2 ''m2'']
   \<and> no_earlier (DbRemoveParanoiaQuestion 1) is_delivery
        (tl (events (answer_run all_good dm_ctx [e1, e2])))
   \<and> events (answer_run all_good dm_ctx []) =
        [DbGetNextParanoia ''7'', Reply '':x: You don't have any active paranoia questions.'']"
  using next_delivery_after_removal [of "[e1, e2]" dm_ctx all_good e1]
    next_delivery_after_removal [of "[]" dm_ctx all_good e1]
  by (simp add: answer_defs getNextParanoia_def removeParanoiaQuestion_def all_good_def
      dm_ctx_def e1_def e2_def clip_def answer_sent_message_def checkmark_def guild_label_def
      no_active_message_def xmark_def)

section \<open>Properties of the usage statistics\<close>

lemma commands_register_names:
  "commands (register_names ns s) X = (if X \<in> set ns then Some (Count 0) else commands s X)"
  by (induction ns arbitrary: s) auto

lemma minuteCommands_register_names:
  "minuteCommands (register_names ns s) X =
     (if X \<in> set ns then Some (Count 0) else minuteCommands s X)"
  by (induction ns arbitrary: s) auto

lemma commands_tick_step:
  "commands s X = Some (Count a) \<Longrightarrow>
   commands (tick_step s t) X = Some (Count (if t = Use X then Suc a else a))"
  by (cases t) (auto simp: count_use_def flush_def post_incr_def)

lemma commands_ticks:
  "commands s X = Some (Count a) \<Longrightarrow>
   commands (foldl tick_step s ticks) X = Some (Count (a + count_list ticks (Use X)))"
proof (induction ticks arbitrary: s a)
  case Nil
  then show ?case by simp
next
  case (Cons t ticks)
  from commands_tick_step [OF Cons.prems, of t]
  have "commands (foldl tick_step (tick_step s t) ticks) X =
          Some (Count ((if t = Use X then Suc a else a) + count_list ticks (Use X)))"
    by (rule Cons.IH)
  then show ?case by simp
qed

lemma count_list_replicate_same: "count_list (replicate n x) x = n"
  by (induction n) auto

lemma uses_minute:
  "minuteCommandCount (foldl tick_step s (replicate n (Use X))) = minuteCommandCount s + n
   \<and> perMinuteCommandAverage (foldl tick_step s (replicate n (Use X))) = perMinuteCommandAverage s
   \<and> minutesPassed (foldl tick_step s (replicate n (Use X))) = minutesPassed s
   \<and> dom (minuteCommands (foldl tick_step s (replicate n (Use X)))) =
       (if n = 0 then dom (minuteCommands s) else insert X (dom (minuteCommands s)))"
  by (induction n arbitrary: s) (auto simp: count_use_def post_incr_def)

text \<open>
  C7. The flush sets the average to
  \<open>(average * minutesPassed + thisMinuteTotal) / (minutesPassed + 1)\<close>, increments
  \<open>minutesPassed\<close>, and sets the minute's total and every per-command counter of the
  minute to zero; the lifetime counters are as before. From the counters that
  \<open>start\<close> registers, after any history of dispatched commands and flushes the
  lifetime counter of a registered command is the number of its dispatches; and
  \<open>n\<close> dispatches of \<open>X\<close> within a minute that began at zero, followed by the flush,
  leave the lifetime counter at \<open>n\<close>, the minute's counter at 0 and the average at
  \<open>(old_average * minutesPassed + n) / (minutesPassed + 1)\<close>.
\<close>

theorem flush_average_and_lifetime:
  "perMinuteCommandAverage (flush s) =
      (perMinuteCommandAverage s * real (minutesPassed s) + real (minuteCommandCount s))
        / (real (minutesPassed s) + 1)
   \<and> minutesPassed (flush s) = minutesPassed s + 1
   \<and> minuteCommandCount (flush s) = 0
   \<and> dom (minuteCommands (flush s)) = dom (minuteCommands s)
   \<and> (\<forall>k \<in> dom (minuteCommands s). minuteCommands (flush s) k = Some (Count 0))
   \<and> commands (flush s) = commands s
   \<and> (X \<in> set names \<longrightarrow>
        commands (foldl tick_step (register_names names initial_stats) ticks) X =
          Some (Count (count_list ticks (Use X))))
   \<and> (commands s X = Some (Count 0) \<and> minuteCommandCount s = 0 \<and> minuteCommands s X \<noteq> None \<longrightarrow>
        (let s' = flush (foldl tick_step s (replicate n (Use X)))
         in commands s' X = Some (Count n)
            \<and> minuteCommands s' X = Some (Count 0)
            \<and> minuteCommandCount s' = 0
            \<and> minutesPassed s' = minutesPassed s + 1
            \<and> perMinuteCommandAverage s' =
                (perMinuteCommandAverage s * real (minutesPassed s) + real n)
                  / (real (minutesPassed s) + 1)))"
proof (intro conjI impI ballI)
  show "perMinuteCommandAverage (flush s) =
      (perMinuteCommandAverage s * real (minutesPassed s) + real (minuteCommandCount s))
        / (real (minutesPassed s) + 1)"
    by (simp add: flush_def add.commute)
  show "minutesPassed (flush s) = minutesPassed s + 1" by (simp add: flush_def)
  show "minuteCommandCount (flush s) = 0" by (simp add: flush_def)
  show "dom (minuteCommands (flush s)) = dom (minuteCommands s)"
    by (auto simp: flush_def dom_def)
  show "minuteCommands (flush s) k = Some (Count 0)" if "k \<in> dom (minuteCommands s)" for k
    using that by (auto simp: flush_def)
  show "commands (flush s) = commands s" by (simp add: flush_def)
  show "commands (foldl tick_step (register_names names initial_stats) ticks) X =
          Some (Count (count_list ticks (Use X)))" if "X \<in> set names"
    using that commands_ticks [of "register_names names initial_stats" X 0 ticks]
    by (simp add: commands_register_names)
  show "let s' = flush (foldl tick_step s (replicate n (Use X)))
         in commands s' X = Some (Count n)
            \<and> minuteCommands s' X = Some (Count 0)
            \<and> minuteCommandCount s' = 0
            \<and> minutesPassed s' = minutesPassed s + 1
            \<and> perMinuteCommandAverage s' =
                (perMinuteCommandAverage s * real (minutesPassed s) + real n)
                  / (real (minutesPassed s) + 1)"
    if h: "commands s X = Some (Count 0) \<and> minuteCommandCount s = 0 \<and> minuteCommands s X \<noteq> None"
  proof -
    let ?u = "foldl tick_step s (replicate n (Use X))"
    have c: "commands ?u X = Some (Count n)"
      using commands_ticks [of s X 0 "replicate n (Use X)"] h
      by (simp add: count_list_replicate_same)
    have d: "X \<in> dom (minuteCommands ?u)"
      using uses_minute [of s n X] h by (auto split: if_splits)
    then obtain v where v: "minuteCommands ?u X = Some v" by auto
    have m: "minuteCommandCount ?u = n" "perMinuteCommandAverage ?u = perMinuteCommandAverage s"
      "minutesPassed ?u = minutesPassed s"
      using uses_minute [of s n X] h by simp_all
    show ?thesis
      using c v m by (simp add: flush_def Let_def add.commute)
  qed
qed

theorem flush_average_and_lifetime_witness:
  "commands (flush (foldl tick_step sample_stats (replicate 3 (Use ''truth'')))) ''truth'' =
     Some (Count 3)
   \<and> minuteCommands (flush (foldl tick_step sample_stats (replicate 3 (Use ''truth'')))) ''truth'' =
     Some (Count 0)
   \<and> perMinuteCommandAverage (flush (foldl tick_step sample_stats (replicate 3 (Use ''truth'')))) = 3
   \<and> commands (foldl tick_step sample_stats [Use ''truth'', Flush, Use ''answer'', Use ''truth'', Flush])
        ''truth'' = Some (Count 2)"
  using flush_average_and_lifetime
      [of sample_stats "''truth''" "[''answer'', ''truth'']"
          "[Use ''truth'', Flush, Use ''answer'', Use ''truth'', Flush]" 3]
  by (simp add: sample_stats_def initial_stats_def Let_def del: foldl.simps replicate.simps
      tick_step.simps)

section \<open>Properties of the rate limiter\<close>

lemma limit_request_in_window:
  assumes "l key = Some w" and "now < window_start w + 5000"
  shows "limit_request APIRateLimit now key code l =
           (hit_count w + 1 \<le> 5,
            l(key \<mapsto> w\<lparr>hit_count := (if hit_count w + 1 \<le> 5 \<and> code < 400
                                       then hit_count w + 1 else hit_count w)\<rparr>))"
  using assms by (auto simp: limit_request_def admit_def settle_def APIRateLimit_def)

lemma limit_all_in_window:
  assumes "l key = Some w" and "hit_count w \<le> 5"
    and "\<forall>(t, code) \<in> set reqs. t < window_start w + 5000 \<and> code < 400"
  shows "fst (limit_all APIRateLimit key reqs l) =
           replicate (min (length reqs) (5 - hit_count w)) True @
           replicate (length reqs - (5 - hit_count w)) False"
  using assms
proof (induction reqs arbitrary: l w)
  case Nil
  then show ?case by simp
next
  case (Cons r reqs)
  obtain t code where r: "r = (t, code)" by (cases r)
  with Cons.prems have t: "t < window_start w + 5000" and code: "code < 400" by auto
  let ?w = "w\<lparr>hit_count := (if hit_count w + 1 \<le> 5 then hit_count w + 1 else hit_count w)\<rparr>"
  have step: "limit_request APIRateLimit t key code l = (hit_count w + 1 \<le> 5, l(key \<mapsto> ?w))"
    using limit_request_in_window [of l key w t code] Cons.prems(1) t code by simp
  have ih: "fst (limit_all APIRateLimit key reqs (l(key \<mapsto> ?w))) =
           replicate (min (length reqs) (5 - hit_count ?w)) True @
           replicate (length reqs - (5 - hit_count ?w)) False"
    by (rule Cons.IH) (use Cons.prems in auto)
  show ?case
  proof (cases "hit_count w + 1 \<le> 5")
    case True
    then have "5 - hit_count w = Suc (5 - hit_count ?w)" by simp
    then show ?thesis
      using ih True by (simp add: r step Let_def)
  next
    case False
    with Cons.prems have "hit_count w = 5" by simp
    then show ?thesis
      using ih False by (simp add: r step Let_def)
  qed
qed

lemma first_step:
  "limit_request APIRateLimit 0 ''ip'' code Map.empty =
     (True, hits_n (if code < 400 then 1 else 0))"
  by (simp add: limit_request_def admit_def settle_def APIRateLimit_def hits_n_def)

lemma later_step:
  "now < 5000 \<Longrightarrow> limit_request APIRateLimit now ''ip'' code (hits_n n) =
     (n + 1 \<le> 5, hits_n (if n + 1 \<le> 5 \<and> code < 400 then n + 1 else n))"
  using limit_request_in_window
      [of "hits_n n" "''ip''" "\<lparr>hit_count = n, window_start = 0\<rparr>" now code]
  by (simp add: hits_n_def)

lemma serve_bad_type_first:
  "hits st = Map.empty \<Longrightarrow>
   serve sample_env 0 bad_type_request st =
     \<lparr>sent = Some \<lparr>status = 400, content = ErrorBody (type_error_message sample_api)\<rparr>,
      served_trace = [], served_state = st\<lparr>hits := hits_n 0\<rparr>, served_escaped = None\<rparr>"
  by (simp add: serve_def bad_type_request_def api_request_def rate_limited_def lower_char_def
      admit_def settle_def APIRateLimit_def dispatch_def api_route_def sample_env_def
      handleAPI_def sample_api_def upper_char_def settle_sent_def hits_n_def Let_def)

lemma serve_bad_type_later:
  "hits st = hits_n n \<Longrightarrow> n < 5 \<Longrightarrow> now < 5000 \<Longrightarrow>
   serve sample_env now bad_type_request st =
     \<lparr>sent = Some \<lparr>status = 400, content = ErrorBody (type_error_message sample_api)\<rparr>,
      served_trace = [], served_state = st\<lparr>hits := hits_n n\<rparr>, served_escaped = None\<rparr>"
  by (simp add: serve_def bad_type_request_def api_request_def rate_limited_def lower_char_def
      admit_def settle_def APIRateLimit_def dispatch_def api_route_def sample_env_def
      handleAPI_def sample_api_def upper_char_def settle_sent_def hits_n_def Let_def)

lemma serve_api_later:
  "hits st = hits_n n \<Longrightarrow> now < 5000 \<Longrightarrow>
   serve sample_env now api_request st =
     (if n < 5
      then \<lparr>sent = Some \<lparr>status = 200, content = QuestionBody
                \<lparr>q_type = ''TRUTH'', q_rating = ''PG'', q_text = ''What?''\<rparr>\<rparr>,
            served_trace = [DbGetRandomQuestion ''TRUTH'' [''R'']],
            served_state = st\<lparr>hits := hits_n (n + 1)\<rparr>, served_escaped = None\<rparr>
      else \<lparr>sent = Some too_many, served_trace = [],
            served_state = st\<lparr>hits := hits_n n\<rparr>, served_escaped = None\<rparr>)"
  by (simp add: serve_def api_request_def rate_limited_def lower_char_def
      admit_def settle_def APIRateLimit_def dispatch_def api_route_def sample_env_def
      handleAPI_def sample_api_def upper_char_def settle_sent_def hits_n_def Let_def too_many_def)

lemma serve_api_first:
  "hits st = Map.empty \<Longrightarrow>
   serve sample_env 0 api_request st =
     \<lparr>sent = Some \<lparr>status = 200, content = QuestionBody
              \<lparr>q_type = ''TRUTH'', q_rating = ''PG'', q_text = ''What?''\<rparr>\<rparr>,
      served_trace = [DbGetRandomQuestion ''TRUTH'' [''R'']],
      served_state = st\<lparr>hits := hits_n 1\<rparr>, served_escaped = None\<rparr>"
  by (simp add: serve_def api_request_def rate_limited_def lower_char_def
      admit_def settle_def APIRateLimit_def dispatch_def api_route_def sample_env_def
      handleAPI_def sample_api_def upper_char_def settle_sent_def hits_n_def Let_def)

text \<open>
  C4, as the claim states it, fails. After five requests answered with status 200 the
  count is 5; a sixth request in the window is rejected and the count is still 5 after
  it: the rejected request has consumed no slot. And five requests that fail with
  status 400 leave the count at 0, so that the sixth request in the window is admitted.
  On the routes: after five requests to /api/foo (an unknown question type, status 400)
  a sixth request of the same address within the window, to /api/truth, is answered
  with a question; and after five answered requests to /api/truth and two rejected ones
  the count is 5.
\<close>

theorem rejected_request_consumes_slot_counterexample:
  "limit_all APIRateLimit ''ip'' [(0, 200), (1, 200), (2, 200), (3, 200), (4, 200)] Map.empty =
     ([True, True, True, True, True], hits_n 5)
   \<and> limit_all APIRateLimit ''ip''
        [(0, 200), (1, 200), (2, 200), (3, 200), (4, 200), (5, 200)] Map.empty =
     ([True, True, True, True, True, False], hits_n 5)
   \<and> limit_all APIRateLimit ''ip''
        [(0, 400), (1, 400), (2, 400), (3, 400), (4, 400), (5, 200)] Map.empty =
     ([True, True, True, True, True, True], hits_n 1)
   \<and> map (map_option status \<circ> sent) (serve_all sample_env
        [(0, bad_type_request), (1, bad_type_request), (2, bad_type_request),
         (3, bad_type_request), (4, bad_type_request), (5, api_request)] sample_state) =
     [Some 400, Some 400, Some 400, Some 400, Some 400, Some 200]
   \<and> map (map_option status \<circ> sent) (serve_all sample_env
        [(0, api_request), (1, api_request), (2, api_request), (3, api_request),
         (4, api_request), (5, api_request), (6, api_request)] sample_state) =
     [Some 200, Some 200, Some 200, Some 200, Some 200, Some 429, Some 429]
   \<and> hits (served_state (last (serve_all sample_env
        [(0, api_request), (1, api_request), (2, api_request), (3, api_request),
         (4, api_request), (5, api_request), (6, api_request)] sample_state))) = hits_n 5"
proof -
  have five: "Suc (Suc (Suc (Suc (Suc 0)))) = 5" by simp
  have e: "hits sample_state = Map.empty" by (simp add: sample_state_def)
  have a: "limit_all APIRateLimit ''ip'' [(0, 200), (1, 200), (2, 200), (3, 200), (4, 200)] Map.empty =
     ([True, True, True, True, True], hits_n 5)"
    "limit_all APIRateLimit ''ip''
        [(0, 200), (1, 200), (2, 200), (3, 200), (4, 200), (5, 200)] Map.empty =
     ([True, True, True, True, True, False], hits_n 5)"
    "limit_all APIRateLimit ''ip''
        [(0, 400), (1, 400), (2, 400), (3, 400), (4, 400), (5, 200)] Map.empty =
     ([True, True, True, True, True, True], hits_n 1)"
    by (simp_all add: Let_def first_step later_step five)
  have b: "map (map_option status \<circ> sent) (serve_all sample_env
        [(0, bad_type_request), (1, bad_type_request), (2, bad_type_request),
         (3, bad_type_request), (4, bad_type_request), (5, api_request)] sample_state) =
     [Some 400, Some 400, Some 400, Some 400, Some 400, Some 200]"
    by (simp add: Let_def serve_bad_type_first serve_bad_type_later serve_api_later e)
  have c: "map (map_option status \<circ> sent) (serve_all sample_env
        [(0, api_request), (1, api_request), (2, api_request), (3, api_request),
         (4, api_request), (5, api_request), (6, api_request)] sample_state) =
     [Some 200, Some 200, Some 200, Some 200, Some 200, Some 429, Some 429]"
    "hits (served_state (last (serve_all sample_env
        [(0, api_request), (1, api_request), (2, api_request), (3, api_request),
         (4, api_request), (5, api_request), (6, api_request)] sample_state))) = hits_n 5"
    by (simp_all add: Let_def serve_api_first serve_api_later e five too_many_def)
  from a b c show ?thesis by (intro conjI)
qed

text \<open>
  C4, amended. The window is 5 seconds and the maximum 5. The first request of an
  identity in a fresh or elapsed window starts a new window with count 1 and is
  admitted. Within a window a request is admitted exactly when the count it raises is
  at most 5; the count keeps the increment only of a request that was admitted and
  answered with a status below 400: a rejected request and a failed one consume no
  slot. Hence of the requests of one identity within one window, all answered
  successfully, the first five are admitted and every later one is rejected.
\<close>

theorem limiter_window_and_skipped_failures:
  "windowMs APIRateLimit = 5000 \<and> max_hits APIRateLimit = 5 \<and> skipFailedRequests APIRateLimit
   \<and> ((l key = None \<or> (\<exists>w. l key = Some w \<and> window_start w + 5000 \<le> now)) \<longrightarrow>
         admit APIRateLimit now key l =
           (True, l(key \<mapsto> \<lparr>hit_count = 1, window_start = now\<rparr>)))
   \<and> (l key = Some w \<and> now < window_start w + 5000 \<longrightarrow>
         admit APIRateLimit now key l =
           (hit_count w + 1 \<le> 5, l(key \<mapsto> w\<lparr>hit_count := hit_count w + 1\<rparr>))
         \<and> limit_request APIRateLimit now key code l =
           (hit_count w + 1 \<le> 5,
            l(key \<mapsto> w\<lparr>hit_count := (if hit_count w + 1 \<le> 5 \<and> code < 400
                                       then hit_count w + 1 else hit_count w)\<rparr>)))
   \<and> (l key = None \<and> code < 400
        \<and> (\<forall>(t, code) \<in> set reqs. now \<le> t \<and> t < now + 5000 \<and> code < 400) \<longrightarrow>
         fst (limit_all APIRateLimit key ((now, code) # reqs) l) =
           replicate (min (Suc (length reqs)) 5) True @ replicate (Suc (length reqs) - 5) False)"
proof (intro conjI impI)
  show "windowMs APIRateLimit = 5000" "max_hits APIRateLimit = 5" "skipFailedRequests APIRateLimit"
    by (simp_all add: APIRateLimit_def)
  show "admit APIRateLimit now key l = (True, l(key \<mapsto> \<lparr>hit_count = 1, window_start = now\<rparr>))"
    if "l key = None \<or> (\<exists>w. l key = Some w \<and> window_start w + 5000 \<le> now)"
    using that by (auto simp: admit_def APIRateLimit_def)
  show "admit APIRateLimit now key l =
           (hit_count w + 1 \<le> 5, l(key \<mapsto> w\<lparr>hit_count := hit_count w + 1\<rparr>))"
    if "l key = Some w \<and> now < window_start w + 5000"
    using that by (auto simp: admit_def APIRateLimit_def)
  show "limit_request APIRateLimit now key code l =
           (hit_count w + 1 \<le> 5,
            l(key \<mapsto> w\<lparr>hit_count := (if hit_count w + 1 \<le> 5 \<and> code < 400
                                       then hit_count w + 1 else hit_count w)\<rparr>))"
    if "l key = Some w \<and> now < window_start w + 5000"
    using that limit_request_in_window by blast
  show "fst (limit_all APIRateLimit key ((now, code) # reqs) l) =
           replicate (min (Suc (length reqs)) 5) True @ replicate (Suc (length reqs) - 5) False"
    if h: "l key = None \<and> code < 400
           \<and> (\<forall>(t, code) \<in> set reqs. now \<le> t \<and> t < now + 5000 \<and> code < 400)"
  proof -
    let ?w = "\<lparr>hit_count = 1, window_start = now\<rparr>"
    have first: "limit_request APIRateLimit now key code l = (True, l(key \<mapsto> ?w))"
      using h by (simp add: limit_request_def admit_def settle_def APIRateLimit_def)
    have "fst (limit_all APIRateLimit key reqs (l(key \<mapsto> ?w))) =
           replicate (min (length reqs) (5 - hit_count ?w)) True @
           replicate (length reqs - (5 - hit_count ?w)) False"
      by (rule limit_all_in_window) (use h in auto)
    then show ?thesis
      using first by (simp add: Let_def)
  qed
qed

theorem limiter_window_and_skipped_failures_witness:
  "fst (limit_all APIRateLimit ''ip''
          [(0, 200), (1, 200), (2, 200), (3, 200), (4999, 200), (4999, 200), (4999, 200)]
          Map.empty) =
     [True, True, True, True, True, False, False]
   \<and> admit APIRateLimit 5000 ''ip'' (hits_n 5) =
       (True, (hits_n 5)(''ip'' \<mapsto> \<lparr>hit_count = 1, window_start = 5000\<rparr>))
   \<and> limit_request APIRateLimit 4999 ''ip'' 200 (hits_n 5) =
       (False, (hits_n 5)(''ip'' \<mapsto> \<lparr>hit_count = 5, window_start = 0\<rparr>))"
  using
    limiter_window_and_skipped_failures
      [of Map.empty "''ip''" 0 undefined 200
          "[(1, 200), (2, 200), (3, 200), (4999, 200), (4999, 200), (4999, 200)]"]
    limiter_window_and_skipped_failures
      [of "hits_n 5" "''ip''" 5000 "\<lparr>hit_count = 5, window_start = 0\<rparr>" 200 "[]"]
    limiter_window_and_skipped_failures
      [of "hits_n 5" "''ip''" 4999 "\<lparr>hit_count = 5, window_start = 0\<rparr>" 200 "[]"]
  by (simp add: hits_n_def eval_nat_numeral(1) del: limit_all.simps)

section \<open>Properties of the router\<close>

lemma filter_handler_events [simp]: "filter P (map HandlerEvent evs) = map HandlerEvent (filter (P \<circ> HandlerEvent) evs)"
  by (induction evs) auto

lemma checkPerms_True_no_reply: "checkPerms flags ps c = Inr (True, replies) \<Longrightarrow> replies = []"
  by (auto simp: checkPerms_def Let_def split: option.splits sum.splits if_splits)

text \<open>
  C5. For a chat-input command that is found, is not stopped by the mute gate and passes
  the permission check: the minute's total goes up by one, the command's lifetime
  counter and its counter of the minute go from \<open>n\<close> to \<open>n + 1\<close> (a counter that
  is absent or not a number becomes not a number), every other counter, the average and
  the minutes passed stay, and the handler is called with the counters already
  incremented; nothing escapes the router. If the handler raises, the router logs,
  sends one error report with the caller, the command name, the options and the
  channel, sends one generic failure reply, and tallies the use as failed; the counters
  are the same as after a handler that returns.
\<close>

theorem handler_failure_is_contained:
  assumes "find (\<lambda>cmd. cmd_name cmd = command_name c) cmds = Some cmd"
    and "checkPerms flags (perms cmd) c = Inr (True, replies)"
    and "\<not> muted c \<or> command_name c \<in> set PASSTHROUGH_COMMANDS"
  shows "let counted = count_use (cmd_name cmd) (server_stats st);
             r = run cmd c counted (paranoia st);
             h = handleRequest flags cmds (ApplicationCommand ChatInput c) st
         in h = handleCommand flags cmds c st
            \<and> minuteCommandCount counted = minuteCommandCount (server_stats st) + 1
            \<and> (\<forall>n. commands (server_stats st) (command_name c) = Some (Count n) \<longrightarrow>
                  commands counted (command_name c) = Some (Count (n + 1)))
            \<and> (\<forall>n. minuteCommands (server_stats st) (command_name c) = Some (Count n) \<longrightarrow>
                  minuteCommands counted (command_name c) = Some (Count (n + 1)))
            \<and> (commands (server_stats st) (command_name c) \<in> {None, Some NaN} \<longrightarrow>
                  commands counted (command_name c) = Some NaN)
            \<and> (minuteCommands (server_stats st) (command_name c) \<in> {None, Some NaN} \<longrightarrow>
                  minuteCommands counted (command_name c) = Some NaN)
            \<and> (\<forall>k. k \<noteq> command_name c \<longrightarrow>
                  commands counted k = commands (server_stats st) k
                  \<and> minuteCommands counted k = minuteCommands (server_stats st) k)
            \<and> perMinuteCommandAverage counted = perMinuteCommandAverage (server_stats st)
            \<and> minutesPassed counted = minutesPassed (server_stats st)
            \<and> server_stats (state h) = counted
            \<and> escaped h = None
            \<and> filter is_handler_event (trace h) = map HandlerEvent (events r)
            \<and> (\<forall>err. raised r = Some err \<longrightarrow>
                 trace h = map HandlerEvent (events r) @
                   [ConsoleError,
                    SentryCapture
                      \<lparr>extra_user = username (ctx_user c) @ ''#'' @ discriminator (ctx_user c) @
                                     '' ('' @ user_id (ctx_user c) @ '')'',
                       extra_command = command_name c, extra_args = options c,
                       extra_channelId = channelId c\<rparr> err,
                    Reply failure_message,
                    TrackCommandUse (command_name c) False]
                 \<and> length (filter (\<lambda>e. e = Reply failure_message) (trace h)) = 1
                 \<and> length (filter is_capture (trace h)) = 1
                 \<and> filter is_tally (trace h) = [TrackCommandUse (command_name c) False])
            \<and> (raised r = None \<longrightarrow>
                 trace h = map HandlerEvent (events r) @ [TrackCommandUse (command_name c) True])"
proof -
  have n: "cmd_name cmd = command_name c"
    using assms(1) by (auto simp: find_Some_iff)
  have r: "replies = []"
    using assms(2) by (rule checkPerms_True_no_reply)
  show ?thesis
    using assms n r
    by (auto simp: handleCommand_def Let_def count_use_def post_incr_def extras_of_def comp_def
        split: option.splits count.splits)
qed

theorem handler_failure_is_contained_witness:
  "trace (handleRequest sample_flags sample_cmds (ApplicationCommand ChatInput dare_ctx) busy_state) =
     [HandlerEvent (Reply ''Dare?''), ConsoleError,
      SentryCapture
        \<lparr>extra_user = ''ann#0001 (7)'', extra_command = ''dare'',
         extra_args = [(''answer'', ''blue'')], extra_channelId = ''dm7''\<rparr>
        (HandlerError ''boom''),
      Reply '':x: Something went wrong while running that command.'',
      TrackCommandUse ''dare'' False]
   \<and> commands (server_stats busy_state) ''dare'' = Some (Count 2)
   \<and> minuteCommands (server_stats busy_state) ''dare'' = Some (Count 1)
   \<and> minuteCommandCount (server_stats busy_state) = 1
   \<and> commands (server_stats (state (handleRequest sample_flags sample_cmds
         (ApplicationCommand ChatInput dare_ctx) busy_state))) ''dare'' = Some (Count 3)
   \<and> minuteCommands (server_stats (state (handleRequest sample_flags sample_cmds
         (ApplicationCommand ChatInput dare_ctx) busy_state))) ''dare'' = Some (Count 2)
   \<and> commands (server_stats (state (handleRequest sample_flags sample_cmds
         (ApplicationCommand ChatInput dare_ctx) busy_state))) ''truth'' = Some (Count 0)
   \<and> minuteCommandCount (server_stats (state (handleRequest sample_flags sample_cmds
         (ApplicationCommand ChatInput dare_ctx) busy_state))) = 2"
proof -
  have f: "find (\<lambda>cmd. cmd_name cmd = command_name dare_ctx) sample_cmds = Some failing_cmd"
    by (simp add: dare_ctx_def sample_cmds_def truth_cmd_def failing_cmd_def)
  have p: "checkPerms sample_flags (perms failing_cmd) dare_ctx = Inr (True, [])"
    by (simp add: checkPerms_def failing_cmd_def dare_ctx_def guild_ctx_def dm_ctx_def)
  have m: "\<not> muted dare_ctx \<or> command_name dare_ctx \<in> set PASSTHROUGH_COMMANDS"
    by (simp add: dare_ctx_def guild_ctx_def dm_ctx_def)
  have b: "commands (server_stats busy_state) ''dare'' = Some (Count 2)"
    "minuteCommands (server_stats busy_state) ''dare'' = Some (Count 1)"
    "commands (server_stats busy_state) ''truth'' = Some (Count 0)"
    "minuteCommandCount (server_stats busy_state) = 1"
    by (simp_all add: busy_state_def sample_state_def initial_stats_def count_use_def flush_def
        post_incr_def)
  have c: "command_name dare_ctx = ''dare''" "cmd_name failing_cmd = ''dare''"
    "ctx_user dare_ctx = \<lparr>user_id = ''7'', username = ''ann'', discriminator = ''0001''\<rparr>"
    "options dare_ctx = [(''answer'', ''blue'')]" "channelId dare_ctx = ''dm7''"
    by (simp_all add: dare_ctx_def guild_ctx_def dm_ctx_def failing_cmd_def)
  have r: "run failing_cmd = (\<lambda>c s d. throws (HandlerError ''boom'') [Reply ''Dare?''] d)"
    by (simp add: failing_cmd_def)
  have u: "\<not> muted dare_ctx"
    by (simp add: dare_ctx_def guild_ctx_def dm_ctx_def)
  have two: "Suc (Suc 0) = 2" by simp
  show ?thesis
    using handler_failure_is_contained [OF f p m, of busy_state] b
    by (simp add: Let_def c r u two throws_def failure_message_def xmark_def)
qed

text \<open>
  C8. The allow-list is the settings command. A chat-input command with another name in
  a muted channel gets the fixed mute message and nothing else happens: no event of a
  handler, and the state (with every counter) is unchanged. The settings command in a
  muted channel goes on to \<open>handleCommand\<close>.
\<close>

theorem muted_channel_short_circuits:
  "PASSTHROUGH_COMMANDS = [''settings'']
   \<and> (muted c \<and> command_name c \<notin> set PASSTHROUGH_COMMANDS \<longrightarrow>
        handleRequest flags cmds (ApplicationCommand ChatInput c) st =
          \<lparr>trace = [Reply muted_message], state = st, escaped = None\<rparr>
        \<and> \<not> list_ex is_handler_event (trace (handleRequest flags cmds (ApplicationCommand ChatInput c) st))
        \<and> server_stats (state (handleRequest flags cmds (ApplicationCommand ChatInput c) st)) = server_stats st)
   \<and> (muted c \<and> command_name c = ''settings'' \<longrightarrow>
        handleRequest flags cmds (ApplicationCommand ChatInput c) st = handleCommand flags cmds c st)"
  by (simp add: PASSTHROUGH_COMMANDS_def)

theorem muted_channel_short_circuits_witness:
  "handleRequest sample_flags sample_cmds (ApplicationCommand ChatInput muted_ctx) sample_state =
     \<lparr>trace = [Reply '':x: I am muted in this channel. Use `/settings unmute` to unmute me.''],
      state = sample_state, escaped = None\<rparr>"
  using muted_channel_short_circuits [of muted_ctx sample_flags sample_cmds sample_state]
  by (simp add: muted_ctx_def guild_ctx_def dm_ctx_def muted_message_def xmark_def
      PASSTHROUGH_COMMANDS_def)

section \<open>Properties of the public question API\<close>

lemma sublist_in_context: "sublist xs ys \<Longrightarrow> sublist xs (ps @ ys @ ss)"
proof -
  assume "sublist xs ys"
  then obtain p s where "ys = p @ xs @ s" by (auto simp: sublist_def)
  then have "ps @ ys @ ss = (ps @ p) @ xs @ (s @ ss)" by simp
  then show ?thesis unfolding sublist_def by blast
qed

lemma sublist_join:
  "x \<in> set xs \<Longrightarrow> sublist x (join sep xs)"
proof (induction sep xs rule: join.induct)
  case (1 sep)
  then show ?case by simp
next
  case (2 sep y)
  then show ?case by simp
next
  case (3 sep y z zs)
  show ?case
  proof (cases "x = y")
    case True
    then show ?thesis by (simp add: sublist_append_rightI)
  next
    case False
    with 3 have "sublist x (join sep (z # zs))" by simp
    then have "sublist x ((y @ sep) @ join sep (z # zs) @ [])" by (rule sublist_in_context)
    then show ?thesis by simp
  qed
qed

lemma sublist_quoted:
  "q \<in> set vals \<Longrightarrow> sublist ([CHR 0x27] @ q @ [CHR 0x27]) (quoted vals)"
  unfolding quoted_def by (rule sublist_join) auto

lemma validate_without_shadowed:
  "QShadowed \<notin> set vs \<Longrightarrow>
   validate env vs =
     (if \<forall>v \<in> set vs. \<exists>s. v = QString s \<and> toUpperCase env s \<in> set (Rating env)
      then AllValid else Invalid)"
  by (induction env vs rule: validate.induct) auto

lemma disabledRatings_of_strings:
  assumes "\<forall>v \<in> set vs. \<exists>s. v = QString s"
  shows "disabledRatings env vs =
           filter (\<lambda>a. \<forall>s. QString s \<in> set vs \<longrightarrow> a \<noteq> toUpperCase env s) (Rating env)"
proof -
  have "(a \<notin> set (map (upper_value env) vs)) = (\<forall>s. QString s \<in> set vs \<longrightarrow> a \<noteq> toUpperCase env s)"
    for a
  proof
    assume a: "a \<notin> set (map (upper_value env) vs)"
    show "\<forall>s. QString s \<in> set vs \<longrightarrow> a \<noteq> toUpperCase env s"
    proof (intro allI impI)
      fix s assume "QString s \<in> set vs"
      then have "upper_value env (QString s) \<in> set (map (upper_value env) vs)"
        by (simp only: set_map image_eqI)
      with a show "a \<noteq> toUpperCase env s" by auto
    qed
  next
    assume b: "\<forall>s. QString s \<in> set vs \<longrightarrow> a \<noteq> toUpperCase env s"
    show "a \<notin> set (map (upper_value env) vs)"
    proof
      assume "a \<in> set (map (upper_value env) vs)"
      then obtain v where v: "v \<in> set vs" "a = upper_value env v" by auto
      with assms obtain s where "v = QString s" by auto
      with v b show False by auto
    qed
  qed
  then show ?thesis by (simp add: disabledRatings_def)
qed

text \<open>
  A rating value that carries a property \<open>toUpperCase\<close> of its own, met before any
  invalid value, makes the handler throw: no response is sent.
\<close>

lemma handleAPI_shadowed_value_throws:
  assumes "toUpperCase env t \<in> set (QuestionType env)"
    and "\<forall>v \<in> set vs. \<exists>s. v = QString s \<and> toUpperCase env s \<in> set (Rating env)"
  shows "handleAPI env t (ManyRatings (vs @ QShadowed # ws)) = Inl TypeError"
    and "handleAPI env t (OneRating QShadowed) = Inl TypeError"
proof -
  have "validate env (vs @ QShadowed # ws) = Thrown"
    using assms(2) by (induction env vs rule: validate.induct) auto
  then show "handleAPI env t (ManyRatings (vs @ QShadowed # ws)) = Inl TypeError"
    using assms(1) by (simp add: handleAPI_def)
  show "handleAPI env t (OneRating QShadowed) = Inl TypeError"
    using assms(1) by (simp add: handleAPI_def)
qed

text \<open>
  C9, as the claim states it, fails. A request with the question type FOO and the rating
  XX, a value outside the rating set, gets the error that lists the question types,
  not the one that lists the ratings. With a valid type: a rating parameter that is the
  empty string, outside the rating set, gets no error but a question fetched with R
  excluded; the rating pg, outside the rating set as it is written, is accepted, types
  and ratings being compared in upper case; and a rating value that is an object with
  a property \<open>toUpperCase\<close> gets no response at all.
\<close>

theorem rating_error_for_every_request_counterexample:
  "handleAPI sample_api ''foo'' (OneRating (QString ''XX'')) =
     Inr ([], \<lparr>status = 400, content = ErrorBody
        (''The question type must be one of the following: 'TRUTH' 'DARE' 'WYR' 'NHIE' 'PARANOIA'' @ [CHR 0x27])\<rparr>)
   \<and> rating_error_message sample_api = ''The rating must be one of the following: 'PG' 'PG13' 'R'' @ [CHR 0x27]
   \<and> handleAPI sample_api ''truth'' (OneRating (QString [])) =
     Inr ([DbGetRandomQuestion ''TRUTH'' [''R'']],
      \<lparr>status = 200, content = QuestionBody \<lparr>q_type = ''TRUTH'', q_rating = ''PG'', q_text = ''What?''\<rparr>\<rparr>)
   \<and> ''pg'' \<notin> set (Rating sample_api)
   \<and> handleAPI sample_api ''truth'' (OneRating (QString ''pg'')) =
     Inr ([DbGetRandomQuestion ''TRUTH'' [''PG13'', ''R''], TrackAPIRequest ''TRUTH'' ''PG''],
      \<lparr>status = 200, content = QuestionBody \<lparr>q_type = ''TRUTH'', q_rating = ''PG'', q_text = ''What?''\<rparr>\<rparr>)
   \<and> handleAPI sample_api ''truth'' (OneRating QShadowed) = Inl TypeError"
  by (simp add: handleAPI_def sample_api_def type_error_message_def rating_error_message_def
      quoted_def upper_char_def Let_def disabledRatings_def)

text \<open>
  C9, amended. Types and ratings are compared in upper case. A question type whose
  upper-case form is outside the enumerated set yields status 400 with the message
  that lists every valid type. A request with a valid type and a rating parameter that
  is present (not empty), none of whose values is an object with a property
  \<open>toUpperCase\<close>, and one of whose values is not a string or is a string whose
  upper-case form is outside the enumerated rating set, yields status 400 with the
  message that lists every valid rating. A request with a valid type and no rating
  parameter (or an empty one) fetches a question with exactly R excluded. With a valid
  type and valid ratings, the question is fetched with exactly the ratings excluded
  that were not asked for, and the request is tracked. Each message is the fixed
  sentence followed by the quoted values of the enum.
\<close>

theorem api_validation:
  "(toUpperCase env t \<notin> set (QuestionType env) \<longrightarrow>
      handleAPI env t r =
        Inr ([], \<lparr>status = 400, content = ErrorBody (type_error_message env)\<rparr>))
   \<and> (toUpperCase env t \<in> set (QuestionType env)
        \<and> r \<noteq> NoRating \<and> r \<noteq> OneRating (QString [])
        \<and> QShadowed \<notin> set (ratingArray r)
        \<and> (QOther \<in> set (ratingArray r)
            \<or> (\<exists>s. QString s \<in> set (ratingArray r) \<and> toUpperCase env s \<notin> set (Rating env))) \<longrightarrow>
      handleAPI env t r =
        Inr ([], \<lparr>status = 400, content = ErrorBody (rating_error_message env)\<rparr>))
   \<and> (toUpperCase env t \<in> set (QuestionType env)
        \<and> (r = NoRating \<or> r = OneRating (QString [])) \<longrightarrow>
      handleAPI env t r =
        Inr ([DbGetRandomQuestion (toUpperCase env t) [''R'']],
             \<lparr>status = 200,
              content = QuestionBody (getRandomQuestion env (toUpperCase env t) [''R''])\<rparr>))
   \<and> (toUpperCase env t \<in> set (QuestionType env)
        \<and> r \<noteq> NoRating \<and> r \<noteq> OneRating (QString [])
        \<and> (\<forall>v \<in> set (ratingArray r). \<exists>s. v = QString s \<and> toUpperCase env s \<in> set (Rating env)) \<longrightarrow>
      (let disabled =
             filter (\<lambda>a. \<forall>s. QString s \<in> set (ratingArray r) \<longrightarrow> a \<noteq> toUpperCase env s)
               (Rating env);
           q = getRandomQuestion env (toUpperCase env t) disabled
       in handleAPI env t r =
            Inr ([DbGetRandomQuestion (toUpperCase env t) disabled,
                  TrackAPIRequest (q_type q) (q_rating q)],
                 \<lparr>status = 200, content = QuestionBody q\<rparr>)))
   \<and> type_error_message env =
        ''The question type must be one of the following: '' @
        join '' '' (map (\<lambda>q. [CHR 0x27] @ q @ [CHR 0x27]) (QuestionType env))
   \<and> rating_error_message env =
        ''The rating must be one of the following: '' @
        join '' '' (map (\<lambda>q. [CHR 0x27] @ q @ [CHR 0x27]) (Rating env))
   \<and> (\<forall>q \<in> set (QuestionType env). sublist ([CHR 0x27] @ q @ [CHR 0x27]) (type_error_message env))
   \<and> (\<forall>q \<in> set (Rating env). sublist ([CHR 0x27] @ q @ [CHR 0x27]) (rating_error_message env))"
proof (intro conjI impI ballI)
  show "handleAPI env t r =
        Inr ([], \<lparr>status = 400, content = ErrorBody (type_error_message env)\<rparr>)"
    if "toUpperCase env t \<notin> set (QuestionType env)"
    using that by (simp add: handleAPI_def)
  show "handleAPI env t r =
        Inr ([], \<lparr>status = 400, content = ErrorBody (rating_error_message env)\<rparr>)"
    if h: "toUpperCase env t \<in> set (QuestionType env)
        \<and> r \<noteq> NoRating \<and> r \<noteq> OneRating (QString [])
        \<and> QShadowed \<notin> set (ratingArray r)
        \<and> (QOther \<in> set (ratingArray r)
            \<or> (\<exists>s. QString s \<in> set (ratingArray r) \<and> toUpperCase env s \<notin> set (Rating env)))"
  proof -
    have n: "\<not> no_rating r"
      using h by (cases r rule: no_rating.cases) auto
    have "\<not> (\<forall>v \<in> set (ratingArray r). \<exists>s. v = QString s \<and> toUpperCase env s \<in> set (Rating env))"
      using h by auto
    then have "validate env (ratingArray r) = Invalid"
      using h validate_without_shadowed [of "ratingArray r" env] by simp
    then show ?thesis
      using h n by (simp add: handleAPI_def)
  qed
  show "handleAPI env t r =
        Inr ([DbGetRandomQuestion (toUpperCase env t) [''R'']],
             \<lparr>status = 200,
              content = QuestionBody (getRandomQuestion env (toUpperCase env t) [''R''])\<rparr>)"
    if "toUpperCase env t \<in> set (QuestionType env)
        \<and> (r = NoRating \<or> r = OneRating (QString []))"
    using that by (auto simp: handleAPI_def Let_def)
  show "let disabled =
             filter (\<lambda>a. \<forall>s. QString s \<in> set (ratingArray r) \<longrightarrow> a \<noteq> toUpperCase env s)
               (Rating env);
           q = getRandomQuestion env (toUpperCase env t) disabled
       in handleAPI env t r =
            Inr ([DbGetRandomQuestion (toUpperCase env t) disabled,
                  TrackAPIRequest (q_type q) (q_rating q)],
                 \<lparr>status = 200, content = QuestionBody q\<rparr>)"
    if h: "toUpperCase env t \<in> set (QuestionType env)
        \<and> r \<noteq> NoRating \<and> r \<noteq> OneRating (QString [])
        \<and> (\<forall>v \<in> set (ratingArray r). \<exists>s. v = QString s \<and> toUpperCase env s \<in> set (Rating env))"
  proof -
    have n: "\<not> no_rating r"
      using h by (cases r rule: no_rating.cases) auto
    have "QShadowed \<notin> set (ratingArray r)"
      using h by auto
    then have v: "validate env (ratingArray r) = AllValid"
      using h validate_without_shadowed [of "ratingArray r" env] by simp
    have d: "disabledRatings env (ratingArray r) =
               filter (\<lambda>a. \<forall>s. QString s \<in> set (ratingArray r) \<longrightarrow> a \<noteq> toUpperCase env s)
                 (Rating env)"
      by (rule disabledRatings_of_strings) (use h in blast)
    show ?thesis
      using h n v d by (simp add: handleAPI_def Let_def)
  qed
  show "type_error_message env =
        ''The question type must be one of the following: '' @
        join '' '' (map (\<lambda>q. [CHR 0x27] @ q @ [CHR 0x27]) (QuestionType env))"
    by (simp add: type_error_message_def quoted_def)
  show "rating_error_message env =
        ''The rating must be one of the following: '' @
        join '' '' (map (\<lambda>q. [CHR 0x27] @ q @ [CHR 0x27]) (Rating env))"
    by (simp add: rating_error_message_def quoted_def)
  show "sublist ([CHR 0x27] @ q @ [CHR 0x27]) (type_error_message env)"
    if "q \<in> set (QuestionType env)" for q
  proof -
    have "sublist ([CHR 0x27] @ q @ [CHR 0x27])
            (''The question type must be one of the following: '' @ quoted (QuestionType env) @ [])"
      using sublist_quoted [OF that] by (rule sublist_in_context)
    then show ?thesis by (simp only: type_error_message_def append_Nil2)
  qed
  show "sublist ([CHR 0x27] @ q @ [CHR 0x27]) (rating_error_message env)"
    if "q \<in> set (Rating env)" for q
  proof -
    have "sublist ([CHR 0x27] @ q @ [CHR 0x27])
            (''The rating must be one of the following: '' @ quoted (Rating env) @ [])"
      using sublist_quoted [OF that] by (rule sublist_in_context)
    then show ?thesis by (simp only: rating_error_message_def append_Nil2)
  qed
qed

theorem api_validation_witness:
  "handleAPI sample_api ''foo'' NoRating =
     Inr ([], \<lparr>status = 400, content = ErrorBody
        (''The question type must be one of the following: 'TRUTH' 'DARE' 'WYR' 'NHIE' 'PARANOIA'' @ [CHR 0x27])\<rparr>)
   \<and> handleAPI sample_api ''truth'' (OneRating (QString ''XX'')) =
     Inr ([], \<lparr>status = 400, content = ErrorBody
        (''The rating must be one of the following: 'PG' 'PG13' 'R'' @ [CHR 0x27])\<rparr>)
   \<and> handleAPI sample_api ''truth'' (ManyRatings [QString ''pg'', QOther]) =
     Inr ([], \<lparr>status = 400, content = ErrorBody
        (''The rating must be one of the following: 'PG' 'PG13' 'R'' @ [CHR 0x27])\<rparr>)
   \<and> handleAPI sample_api ''truth'' NoRating =
     Inr ([DbGetRandomQuestion ''TRUTH'' [''R'']],
      \<lparr>status = 200, content = QuestionBody \<lparr>q_type = ''TRUTH'', q_rating = ''PG'', q_text = ''What?''\<rparr>\<rparr>)
   \<and> handleAPI sample_api ''truth'' (ManyRatings [QString ''pg'', QString ''r'']) =
     Inr ([DbGetRandomQuestion ''TRUTH'' [''PG13''], TrackAPIRequest ''TRUTH'' ''PG''],
      \<lparr>status = 200, content = QuestionBody \<lparr>q_type = ''TRUTH'', q_rating = ''PG'', q_text = ''What?''\<rparr>\<rparr>)
   \<and> sublist ([CHR 0x27] @ ''PG13'' @ [CHR 0x27]) (rating_error_message sample_api)"
  using api_validation [of sample_api "''foo''" NoRating]
    api_validation [of sample_api "''truth''" "OneRating (QString ''XX'')"]
    api_validation [of sample_api "''truth''" "ManyRatings [QString ''pg'', QOther]"]
    api_validation [of sample_api "''truth''" NoRating]
    api_validation [of sample_api "''truth''" "ManyRatings [QString ''pg'', QString ''r'']"]
  by (simp add: sample_api_def upper_char_def Let_def)

section \<open>Properties of the routes\<close>

lemma not_limited_interactions:
  "map (map lower_char) p = [''interactions''] \<Longrightarrow> \<not> rate_limited p"
  by (cases p) (auto simp: rate_limited_def)

lemma find_truth: "find (\<lambda>cmd. cmd_name cmd = ''truth'') sample_cmds = Some truth_cmd"
  by (simp add: sample_cmds_def truth_cmd_def)

lemma serve_interaction:
  "serve sample_env now interaction_request st =
     \<lparr>sent = None, served_trace = [HandlerEvent (Reply ''Truth?''), TrackCommandUse ''truth'' True],
      served_state = st\<lparr>server_stats := count_use ''truth'' (server_stats st)\<rparr>,
      served_escaped = None\<rparr>"
  by (simp add: serve_def rate_limited_def lower_char_def dispatch_def interactions_route_def
      interaction_request_def sample_env_def truth_ctx_def guild_ctx_def dm_ctx_def
      handleCommand_def find_truth checkPerms_def truth_cmd_def returns_def Let_def)

text \<open>
  C2, as the claim states it, fails. Six signed command interactions of one caller
  within six milliseconds are all dispatched: none gets a rate-limit response, each runs
  its handler and is counted. Even when the limiter has no slot left for the address,
  where a request to the question API is answered with 429, an interaction is handled.
\<close>

theorem webhook_rate_limit_counterexample:
  "map sent (serve_all sample_env
       [(0, interaction_request), (1, interaction_request), (2, interaction_request),
        (3, interaction_request), (4, interaction_request), (5, interaction_request)]
       sample_state) = [None, None, None, None, None, None]
   \<and> map served_trace (serve_all sample_env
       [(0, interaction_request), (1, interaction_request), (2, interaction_request),
        (3, interaction_request), (4, interaction_request), (5, interaction_request)]
       sample_state) =
     replicate 6 [HandlerEvent (Reply ''Truth?''), TrackCommandUse ''truth'' True]
   \<and> minuteCommandCount (server_stats (served_state (last (serve_all sample_env
       [(0, interaction_request), (1, interaction_request), (2, interaction_request),
        (3, interaction_request), (4, interaction_request), (5, interaction_request)]
       sample_state)))) = 6
   \<and> sent (serve sample_env 5 api_request (sample_state\<lparr>hits := hits_n 5\<rparr>)) = Some too_many
   \<and> served_trace (serve sample_env 5 interaction_request (sample_state\<lparr>hits := hits_n 5\<rparr>)) =
       [HandlerEvent (Reply ''Truth?''), TrackCommandUse ''truth'' True]"
proof -
  have six: "replicate 6 x = [x, x, x, x, x, x]" for x :: "event list"
    by (simp add: eval_nat_numeral)
  have api: "sent (serve sample_env 5 api_request (sample_state\<lparr>hits := hits_n 5\<rparr>)) = Some too_many"
    by (simp add: serve_def api_request_def rate_limited_def lower_char_def admit_def hits_n_def
        APIRateLimit_def)
  have zero: "minuteCommandCount (server_stats sample_state) = 0"
    by (simp add: sample_state_def initial_stats_def)
  show ?thesis
    by (simp add: serve_interaction Let_def count_use_def six api zero)
qed

text \<open>
  C2, amended. The limiter stands before the routes under /api/ and /v1/, keyed by the
  source address: a request there that the limiter rejects is answered at once with
  status 429 and the rate-limit message, with no event of any handler and the
  statistics and the queue unchanged; one that it admits goes on to its route. A
  request to /interactions does not pass the limiter: it is dispatched whatever the
  limiter holds.
\<close>

theorem limiter_guards_api_routes_only:
  "(rate_limited (req_path req) \<and> \<not> fst (admit APIRateLimit now (req_ip req) (hits st)) \<longrightarrow>
      sent (serve env now req st) = Some too_many
      \<and> served_trace (serve env now req st) = []
      \<and> server_stats (served_state (serve env now req st)) = server_stats st
      \<and> paranoia (served_state (serve env now req st)) = paranoia st)
   \<and> (rate_limited (req_path req) \<and> fst (admit APIRateLimit now (req_ip req) (hits st)) \<longrightarrow>
      sent (serve env now req st) =
        sent (dispatch env req (st\<lparr>hits := snd (admit APIRateLimit now (req_ip req) (hits st))\<rparr>))
      \<and> served_trace (serve env now req st) =
        served_trace (dispatch env req (st\<lparr>hits := snd (admit APIRateLimit now (req_ip req) (hits st))\<rparr>)))
   \<and> (length (req_path req) = 2 \<and> map lower_char (hd (req_path req)) \<in> {''api'', ''v1''} \<longrightarrow>
      rate_limited (req_path req))
   \<and> (map (map lower_char) (req_path req) = [''interactions''] \<longrightarrow>
      \<not> rate_limited (req_path req) \<and> serve env now req st = dispatch env req st)
   \<and> too_many = \<lparr>status = 429, content = ErrorBody ''Too many requests, please try again later.''\<rparr>"
proof (intro conjI impI)
  assume h: "rate_limited (req_path req) \<and> \<not> fst (admit APIRateLimit now (req_ip req) (hits st))"
  then show "sent (serve env now req st) = Some too_many"
    "served_trace (serve env now req st) = []"
    "server_stats (served_state (serve env now req st)) = server_stats st"
    "paranoia (served_state (serve env now req st)) = paranoia st"
    by (simp_all add: serve_def case_prod_beta)
next
  assume h: "rate_limited (req_path req) \<and> fst (admit APIRateLimit now (req_ip req) (hits st))"
  then show "sent (serve env now req st) =
        sent (dispatch env req (st\<lparr>hits := snd (admit APIRateLimit now (req_ip req) (hits st))\<rparr>))"
    "served_trace (serve env now req st) =
        served_trace (dispatch env req (st\<lparr>hits := snd (admit APIRateLimit now (req_ip req) (hits st))\<rparr>))"
    by (simp_all add: serve_def Let_def case_prod_beta)
next
  assume "length (req_path req) = 2 \<and> map lower_char (hd (req_path req)) \<in> {''api'', ''v1''}"
  then show "rate_limited (req_path req)"
    by (cases "req_path req") (auto simp: rate_limited_def)
next
  assume h: "map (map lower_char) (req_path req) = [''interactions'']"
  then show "\<not> rate_limited (req_path req)" by (rule not_limited_interactions)
  then show "serve env now req st = dispatch env req st" by (simp add: serve_def)
next
  show "too_many = \<lparr>status = 429, content = ErrorBody ''Too many requests, please try again later.''\<rparr>"
    by (simp add: too_many_def)
qed

theorem limiter_guards_api_routes_only_witness:
  "sent (serve sample_env 5 api_request (sample_state\<lparr>hits := hits_n 5\<rparr>)) =
     Some \<lparr>status = 429, content = ErrorBody ''Too many requests, please try again later.''\<rparr>
   \<and> served_trace (serve sample_env 5 api_request (sample_state\<lparr>hits := hits_n 5\<rparr>)) = []
   \<and> served_trace (serve sample_env 5 api_request sample_state) = [DbGetRandomQuestion ''TRUTH'' [''R'']]
   \<and> serve sample_env 5 interaction_request (sample_state\<lparr>hits := hits_n 5\<rparr>) =
       dispatch sample_env interaction_request (sample_state\<lparr>hits := hits_n 5\<rparr>)"
  using limiter_guards_api_routes_only [of api_request 5 "sample_state\<lparr>hits := hits_n 5\<rparr>" sample_env]
    limiter_guards_api_routes_only [of api_request 5 sample_state sample_env]
    limiter_guards_api_routes_only [of interaction_request 5 "sample_state\<lparr>hits := hits_n 5\<rparr>" sample_env]
  by (simp add: api_request_def interaction_request_def rate_limited_def lower_char_def admit_def
      hits_n_def APIRateLimit_def sample_state_def dispatch_def api_route_def sample_env_def
      handleAPI_def sample_api_def upper_char_def Let_def)

end
